theory Spec2Isabelle
  imports Main "HOL-Library.Word" "HOL-Library.Sublist"
begin

section \<open>JavaScript strings and values\<close>

text \<open>
  A JavaScript string is a sequence of UTF-16 code units, and \<^verbatim>\<open>s.length\<close> counts
  code units. String literals of the source are written with \<open>js\<close>.
\<close>

type_synonym js_string = "16 word list"

definition js :: "string \<Rightarrow> js_string" where
  "js s = map of_char s"

text \<open>
  The values a parsed JSON request can hold. An object or array is represented by the
  text \<^verbatim>\<open>JSON.stringify\<close> returns for it, which is all the code ever asks of one.
  \<open>Number\<close> carries integers only: every test below treats a non-integer number like a
  non-zero one.
\<close>

datatype js_value =
    Undefined
  | Null
  | Boolean bool
  | Number int
  | String js_string
  | Object js_string

fun truthy :: "js_value \<Rightarrow> bool" where
  "truthy Undefined = False"
| "truthy Null = False"
| "truthy (Boolean b) = b"
| "truthy (Number n) = (n \<noteq> 0)"
| "truthy (String s) = (s \<noteq> [])"
| "truthy (Object t) = True"

datatype js_type = TUndefined | TObject | TBoolean | TNumber | TString

fun typeof :: "js_value \<Rightarrow> js_type" where
  "typeof Undefined = TUndefined"
| "typeof Null = TObject"
| "typeof (Boolean b) = TBoolean"
| "typeof (Number n) = TNumber"
| "typeof (String s) = TString"
| "typeof (Object t) = TObject"

text \<open>\<^verbatim>\<open>String.prototype.includes\<close> on the texts of error messages.\<close>

fun str_includes :: "string \<Rightarrow> string \<Rightarrow> bool" where
  "str_includes [] sub = (sub = [])"
| "str_includes (c # cs) sub = (prefix sub (c # cs) \<or> str_includes cs sub)"

text \<open>\<^verbatim>\<open>String.prototype.trim\<close>: white space and line terminators of ECMAScript.\<close>

definition js_whitespace :: "16 word \<Rightarrow> bool" where
  "js_whitespace u =
     (u = 0x9 \<or> u = 0xA \<or> u = 0xB \<or> u = 0xC \<or> u = 0xD \<or> u = 0x20 \<or> u = 0xA0
      \<or> u = 0x1680 \<or> (0x2000 \<le> u \<and> u \<le> 0x200A) \<or> u = 0x2028 \<or> u = 0x2029
      \<or> u = 0x202F \<or> u = 0x205F \<or> u = 0x3000 \<or> u = 0xFEFF)"

definition trim :: "js_string \<Rightarrow> js_string" where
  "trim s = rev (dropWhile js_whitespace (rev (dropWhile js_whitespace s)))"

text \<open>Decimal text of a number, as \<^verbatim>\<open>toString\<close> and template literals print it.\<close>

definition digit_char :: "nat \<Rightarrow> char" where
  "digit_char d = char_of (48 + d)"

fun show_nat :: "nat \<Rightarrow> string" where
  "show_nat n = (if n < 10 then [digit_char n] else show_nat (n div 10) @ [digit_char (n mod 10)])"

declare show_nat.simps [simp del]

text \<open>A thrown \<^verbatim>\<open>Error\<close>; an axios error also carries the response, when one came.\<close>

record http_response =
  resp_status :: nat
  data_truthy :: bool
  data_json :: js_string

datatype js_error =
    Error (message: string)
  | AxiosError (message: string) (response: "http_response option")

section \<open>The store and the queue\<close>

text \<open>
  Rows of the three Prisma models. Ids are UUIDs drawn by the store, modelled as the
  values of a counter; times are milliseconds since the epoch.
\<close>

record event_row =
  e_id :: nat
  e_idempotency_key :: js_string
  e_event_type :: js_string
  e_payload :: js_value
  e_received_at :: nat

record subscription_row =
  s_id :: nat
  s_event_type :: js_string
  s_target_url :: js_string
  s_secret_key :: js_string
  s_is_active :: bool
  s_created_at :: nat
  s_updated_at :: nat

datatype delivery_status = Pending | Success | Failed

record delivery_log_row =
  l_id :: nat
  l_event_id :: nat
  l_subscription_id :: nat
  l_status :: delivery_status
  l_attempt_count :: nat
  l_attempted_at :: nat
  l_response_status_code :: "nat option"
  l_response_body :: "js_string option"
  l_error_message :: "string option"

text \<open>
  A BullMQ job: its name, its data, the options \<^verbatim>\<open>queue.add\<close> was given and the number
  of attempts the queue has already made of it (\<^verbatim>\<open>job.attemptsMade\<close>, so that the
  attempt being run is number \<open>attemptsMade + 1\<close>).
\<close>

datatype job_data =
    ProcessWebhookDeliveries nat js_string
  | DeliverWebhook nat nat
  | UnknownJob string

record job =
  job_name :: string
  job_data :: job_data
  opt_attempts :: nat
  opt_backoff_delay :: "nat option"
  attemptsMade :: nat

text \<open>
  The state the handlers and the worker share: the tables of the store, the next id the
  store will draw, the jobs waiting in the queue in the order they were added, and
  whether the queue takes jobs (\<open>WebhookService\<close> is initialised and Redis answers).
\<close>

record system =
  events :: "event_row list"
  subscriptions :: "subscription_row list"
  delivery_logs :: "delivery_log_row list"
  next_id :: nat
  queue :: "job list"
  queue_up :: bool

text \<open>
  What the code takes from its runtime: the environment variable
  \<^verbatim>\<open>MAX_RETRY_ATTEMPTS\<close> (\<open>None\<close> when unset), the protocol \<^verbatim>\<open>new URL(url)\<close> parses
  for a value (\<open>None\<close> when it throws), the digest of \<^verbatim>\<open>crypto.createHmac('sha256', secret)\<close>
  after \<^verbatim>\<open>update(payload)\<close>, and \<^verbatim>\<open>JSON.stringify\<close> of the envelope built from an
  event's id, type, payload, receipt time and idempotency key.
\<close>

record runtime =
  env_MAX_RETRY_ATTEMPTS :: "nat option"
  url_protocol :: "js_value \<Rightarrow> string option"
  hmac_sha256 :: "js_string \<Rightarrow> js_string \<Rightarrow> 8 word list"
  stringify_envelope :: "nat \<Rightarrow> js_string \<Rightarrow> js_value \<Rightarrow> nat \<Rightarrow> js_string \<Rightarrow> js_string"

subsection \<open>Prisma operations on events\<close>

definition event_findUnique_by_key :: "js_string \<Rightarrow> system \<Rightarrow> event_row option" where
  "event_findUnique_by_key k s = find (\<lambda>e. e_idempotency_key e = k) (events s)"

definition event_findUnique_by_id :: "nat \<Rightarrow> system \<Rightarrow> event_row option" where
  "event_findUnique_by_id i s = find (\<lambda>e. e_id e = i) (events s)"

text \<open>
  \<^verbatim>\<open>prisma.event.create\<close>. The schema declares \<^verbatim>\<open>idempotency_key String @unique\<close>: a
  second row with a stored key is refused with Prisma's unique-constraint error, whose
  message names the constraint's field. A missing key or an event type that is no string
  fails Prisma's validation.
\<close>

definition event_create ::
  "js_string option \<Rightarrow> js_value \<Rightarrow> js_value \<Rightarrow> nat \<Rightarrow> system \<Rightarrow> js_error + (event_row \<times> system)" where
  "event_create key eventType payload now s =
     (case (key, eventType) of
        (Some k, String t) \<Rightarrow>
          (if \<exists>e \<in> set (events s). e_idempotency_key e = k
           then Inl (Error ''Unique constraint failed on the fields: (idempotency_key)'')
           else
             let event = \<lparr>e_id = next_id s, e_idempotency_key = k, e_event_type = t,
                          e_payload = payload, e_received_at = now\<rparr>
             in Inr (event, s\<lparr>events := events s @ [event], next_id := Suc (next_id s)\<rparr>))
      | _ \<Rightarrow> Inl (Error ''Invalid prisma.event.create() invocation''))"

subsection \<open>WebhookService: the queue\<close>

definition max_retry_attempts :: "runtime \<Rightarrow> nat" where
  "max_retry_attempts rt = (case env_MAX_RETRY_ATTEMPTS rt of None \<Rightarrow> 3 | Some n \<Rightarrow> n)"

definition queue_add :: "job \<Rightarrow> system \<Rightarrow> js_error + system" where
  "queue_add j s =
     (if queue_up s then Inr (s\<lparr>queue := queue s @ [j]\<rparr>)
      else Inl (Error ''WebhookService not initialized. Call initialize() first.''))"

definition queueWebhookDeliveries :: "nat \<Rightarrow> js_string \<Rightarrow> system \<Rightarrow> js_error + system" where
  "queueWebhookDeliveries eventId eventType s =
     queue_add \<lparr>job_name = ''process-webhook-deliveries'',
                job_data = ProcessWebhookDeliveries eventId eventType,
                opt_attempts = 1, opt_backoff_delay = None, attemptsMade = 0\<rparr> s"

definition queueWebhookDelivery :: "runtime \<Rightarrow> nat \<Rightarrow> nat \<Rightarrow> system \<Rightarrow> js_error + system" where
  "queueWebhookDelivery rt eventId subscriptionId s =
     queue_add \<lparr>job_name = ''deliver-webhook'',
                job_data = DeliverWebhook eventId subscriptionId,
                opt_attempts = max_retry_attempts rt, opt_backoff_delay = Some 2000,
                attemptsMade = 0\<rparr> s"

section \<open>HTTP responses of the handlers\<close>

datatype jv =
    JBool bool
  | JLit string
  | JStr js_string
  | JNum nat
  | JNull
  | JObj "(string \<times> jv) list"

record response =
  status :: nat
  json :: "(string \<times> jv) list"

definition json_field :: "response \<Rightarrow> string \<Rightarrow> jv option" where
  "json_field r name = map_of (json r) name"

section \<open>EventController\<close>

record body_fields =
  b_eventType :: js_value
  b_payload :: js_value
  b_targetUrl :: js_value
  b_description :: js_value
  b_isActive :: js_value

record validation =
  isValid :: bool
  verror :: "string option"

definition invalid :: "string \<Rightarrow> validation" where
  "invalid msg = \<lparr>isValid = False, verror = Some msg\<rparr>"

text \<open>The regular expression \<^verbatim>\<open>/^[a-zA-Z0-9._-]+$/\<close>.\<close>

definition eventTypeChar :: "16 word \<Rightarrow> bool" where
  "eventTypeChar u =
     ((0x61 \<le> u \<and> u \<le> 0x7A) \<or> (0x41 \<le> u \<and> u \<le> 0x5A) \<or> (0x30 \<le> u \<and> u \<le> 0x39)
      \<or> u = 0x2E \<or> u = 0x5F \<or> u = 0x2D)"

definition eventTypeRegex_test :: "js_string \<Rightarrow> bool" where
  "eventTypeRegex_test s = (s \<noteq> [] \<and> list_all eventTypeChar s)"

text \<open>
  \<open>validateEventRequest\<close>. The body is \<open>None\<close> when it is falsy or no object. The
  payload's size is \<^verbatim>\<open>JSON.stringify(payload).length\<close>; only an object or array
  reaches that line.
\<close>

definition validateEventRequest :: "body_fields option \<Rightarrow> validation" where
  "validateEventRequest body =
     (case body of
        None \<Rightarrow> invalid ''Request body must be a valid JSON object''
      | Some b \<Rightarrow>
          (case b_eventType b of
             String t \<Rightarrow>
               if t = [] then invalid ''eventType is required and must be a string''
               else if length (trim t) = 0 then invalid ''eventType cannot be empty''
               else if \<not> eventTypeRegex_test t then
                 invalid ''eventType must contain only alphanumeric characters, dots, underscores, and hyphens''
               else
                 (case b_payload b of
                    Undefined \<Rightarrow> invalid ''payload is required''
                  | Null \<Rightarrow> invalid ''payload is required''
                  | Object payloadString \<Rightarrow>
                      if length payloadString > 1024 * 1024
                      then invalid ''payload size exceeds 1MB limit''
                      else \<lparr>isValid = True, verror = None\<rparr>
                  | _ \<Rightarrow> invalid ''payload must be an object'')
           | _ \<Rightarrow> invalid ''eventType is required and must be a string''))"

record event_request =
  x_idempotency_key :: "js_string option"
  body :: "body_fields option"

text \<open>
  \<open>processEvent\<close> up to its duplicate check (lines 21 to 57): \<open>Some r\<close> when the
  handler answers \<open>r\<close> there, \<open>None\<close> when it goes on to store the event. The check
  reads the store and changes nothing.
\<close>

definition processEvent_check :: "event_request \<Rightarrow> system \<Rightarrow> response option" where
  "processEvent_check req s =
     (case x_idempotency_key req of
        None \<Rightarrow> Some \<lparr>status = 400, json =
          [(''success'', JBool False),
           (''error'', JLit ''Missing required header: x-idempotency-key''),
           (''code'', JLit ''MISSING_IDEMPOTENCY_KEY'')]\<rparr>
      | Some idempotencyKey \<Rightarrow>
          if idempotencyKey = [] then Some \<lparr>status = 400, json =
            [(''success'', JBool False),
             (''error'', JLit ''Missing required header: x-idempotency-key''),
             (''code'', JLit ''MISSING_IDEMPOTENCY_KEY'')]\<rparr>
          else
            let validationResult = validateEventRequest (body req) in
            if \<not> isValid validationResult then Some \<lparr>status = 400, json =
              [(''success'', JBool False),
               (''error'', (case verror validationResult of Some m \<Rightarrow> JLit m | None \<Rightarrow> JNull)),
               (''code'', JLit ''VALIDATION_ERROR'')]\<rparr>
            else
              (case event_findUnique_by_key idempotencyKey s of
                 Some existingEvent \<Rightarrow> Some \<lparr>status = 202, json =
                   [(''success'', JBool True),
                    (''message'', JLit ''Event already processed (idempotent)''),
                    (''eventId'', JNum (e_id existingEvent)),
                    (''idempotencyKey'', JStr (e_idempotency_key existingEvent)),
                    (''processedAt'', JNum (e_received_at existingEvent))]\<rparr>
               | None \<Rightarrow> None))"

text \<open>
  The rest of \<open>processEvent\<close> (lines 59 to 118): the insert, the fan-out job, whose
  failure is caught and ignored, and the \<^verbatim>\<open>catch\<close> block that turns a store error
  into 409 or 500. \<open>now\<close> is the clock at the insert, \<open>ms\<close> the processing time.
\<close>

definition processEvent_store :: "event_request \<Rightarrow> nat \<Rightarrow> nat \<Rightarrow> system \<Rightarrow> response \<times> system" where
  "processEvent_store req now ms s =
     (case body req of
        None \<Rightarrow> (\<lparr>status = 500, json =
          [(''success'', JBool False),
           (''error'', JLit ''Internal server error while processing event''),
           (''code'', JLit ''INTERNAL_ERROR''),
           (''processingTimeMs'', JNum ms)]\<rparr>, s)
      | Some b \<Rightarrow>
          (case event_create (x_idempotency_key req) (b_eventType b) (b_payload b) now s of
             Inr (event, s1) \<Rightarrow>
               let s2 = (case queueWebhookDeliveries (e_id event) (e_event_type event) s1 of
                           Inr s' \<Rightarrow> s' | Inl queueError \<Rightarrow> s1)
               in (\<lparr>status = 202, json =
                     [(''success'', JBool True),
                      (''message'', JLit ''Event accepted and queued for processing''),
                      (''eventId'', JNum (e_id event)),
                      (''eventType'', JStr (e_event_type event)),
                      (''idempotencyKey'', JStr (e_idempotency_key event)),
                      (''receivedAt'', JNum (e_received_at event)),
                      (''processingTimeMs'', JNum ms)]\<rparr>, s2)
           | Inl err \<Rightarrow>
               if str_includes (message err) ''Unique constraint''
               then (\<lparr>status = 409, json =
                 [(''success'', JBool False),
                  (''error'', JLit ''Event with this idempotency key already exists''),
                  (''code'', JLit ''DUPLICATE_IDEMPOTENCY_KEY''),
                  (''processingTimeMs'', JNum ms)]\<rparr>, s)
               else (\<lparr>status = 500, json =
                 [(''success'', JBool False),
                  (''error'', JLit ''Internal server error while processing event''),
                  (''code'', JLit ''INTERNAL_ERROR''),
                  (''processingTimeMs'', JNum ms)]\<rparr>, s)))"

definition processEvent :: "event_request \<Rightarrow> nat \<Rightarrow> nat \<Rightarrow> system \<Rightarrow> response \<times> system" where
  "processEvent req now ms s =
     (case processEvent_check req s of
        Some r \<Rightarrow> (r, s)
      | None \<Rightarrow> processEvent_store req now ms s)"

section \<open>SecurityUtils\<close>

text \<open>\<^verbatim>\<open>digest('hex')\<close> and \<^verbatim>\<open>toString('hex')\<close>: two lowercase hex digits a byte.\<close>

definition hex_digit :: "nat \<Rightarrow> char" where
  "hex_digit d = (if d < 10 then char_of (48 + d) else char_of (87 + d))"

definition hex_byte :: "8 word \<Rightarrow> string" where
  "hex_byte b = [hex_digit (unat b div 16), hex_digit (unat b mod 16)]"

definition hex :: "8 word list \<Rightarrow> string" where
  "hex bs = concat (map hex_byte bs)"

definition generateHmacSignature :: "runtime \<Rightarrow> js_string \<Rightarrow> js_string \<Rightarrow> js_string" where
  "generateHmacSignature rt payload secret = js (hex (hmac_sha256 rt secret payload))"

definition generateWebhookSignature :: "runtime \<Rightarrow> js_string \<Rightarrow> js_string \<Rightarrow> js_string" where
  "generateWebhookSignature rt payload secret =
     (let signature = generateHmacSignature rt payload secret in js ''sha256='' @ signature)"

text \<open>\<open>generateSecretKey\<close>, given the 32 bytes \<^verbatim>\<open>crypto.randomBytes\<close> drew.\<close>

definition generateSecretKey :: "8 word list \<Rightarrow> js_string" where
  "generateSecretKey randomBytes = js (hex randomBytes)"

definition isValidWebhookUrl :: "runtime \<Rightarrow> js_value \<Rightarrow> bool" where
  "isValidWebhookUrl rt url =
     (case url_protocol rt url of
        Some protocol \<Rightarrow> protocol = ''https:'' \<or> protocol = ''http:''
      | None \<Rightarrow> False)"

type_synonym headers = "(string \<times> js_string) list"

definition generateWebhookHeaders ::
  "runtime \<Rightarrow> js_string \<Rightarrow> js_string \<Rightarrow> js_string \<Rightarrow> nat \<Rightarrow> nat \<Rightarrow> headers" where
  "generateWebhookHeaders rt payload secret eventType eventId now =
     (let signature = generateWebhookSignature rt payload secret;
          timestamp = js (show_nat (now div 1000))
      in [(''Content-Type'', js ''application/json''),
          (''X-AlgoHire-Signature'', signature),
          (''X-AlgoHire-Timestamp'', timestamp),
          (''X-AlgoHire-Event-Type'', eventType),
          (''X-AlgoHire-Event-ID'', js (show_nat eventId)),
          (''User-Agent'', js ''AlgoHire-Webhook-Relay/1.0'')])"

section \<open>AdminController\<close>

subsection \<open>Prisma operations on subscriptions and delivery logs\<close>

text \<open>
  The schema of these two models is not among the sources. The store is modelled with
  no constraint of its own on subscriptions: the controller's \<^verbatim>\<open>findFirst\<close> is the
  only duplicate check the code makes. Prisma validates the types of the data first.
\<close>

definition subscription_findUnique :: "nat \<Rightarrow> system \<Rightarrow> subscription_row option" where
  "subscription_findUnique i s = find (\<lambda>x. s_id x = i) (subscriptions s)"

definition subscription_findFirst_active ::
  "js_string \<Rightarrow> js_string \<Rightarrow> system \<Rightarrow> subscription_row option" where
  "subscription_findFirst_active et url s =
     find (\<lambda>x. s_event_type x = et \<and> s_target_url x = url \<and> s_is_active x = True) (subscriptions s)"

definition subscription_create ::
  "js_string \<Rightarrow> js_string \<Rightarrow> js_string \<Rightarrow> bool \<Rightarrow> nat \<Rightarrow> nat \<Rightarrow> system \<Rightarrow> subscription_row \<times> system" where
  "subscription_create et url secret active created updated s =
     (let row = \<lparr>s_id = next_id s, s_event_type = et, s_target_url = url, s_secret_key = secret,
                 s_is_active = active, s_created_at = created, s_updated_at = updated\<rparr>
      in (row, s\<lparr>subscriptions := subscriptions s @ [row], next_id := Suc (next_id s)\<rparr>))"

record update_data =
  d_updated_at :: nat
  d_event_type :: js_value
  d_target_url :: js_value
  d_is_active :: js_value

definition update_data_valid :: "update_data \<Rightarrow> bool" where
  "update_data_valid d =
     ((d_event_type d = Undefined \<or> typeof (d_event_type d) = TString)
      \<and> (d_target_url d = Undefined \<or> typeof (d_target_url d) = TString)
      \<and> (d_is_active d = Undefined \<or> typeof (d_is_active d) = TBoolean))"

definition apply_update :: "update_data \<Rightarrow> subscription_row \<Rightarrow> subscription_row" where
  "apply_update d row =
     row\<lparr>s_updated_at := d_updated_at d,
         s_event_type := (case d_event_type d of String t \<Rightarrow> t | _ \<Rightarrow> s_event_type row),
         s_target_url := (case d_target_url d of String u \<Rightarrow> u | _ \<Rightarrow> s_target_url row),
         s_is_active := (case d_is_active d of Boolean a \<Rightarrow> a | _ \<Rightarrow> s_is_active row)\<rparr>"

definition subscription_update ::
  "nat \<Rightarrow> update_data \<Rightarrow> system \<Rightarrow> js_error + (subscription_row \<times> system)" where
  "subscription_update i d s =
     (if \<not> update_data_valid d
      then Inl (Error ''Invalid prisma.subscription.update() invocation'')
      else
        (case subscription_findUnique i s of
           None \<Rightarrow> Inl (Error ''An operation failed because it depends on one or more records that were required but not found. Record to update not found.'')
         | Some row \<Rightarrow>
             Inr (apply_update d row,
                  s\<lparr>subscriptions :=
                      map (\<lambda>x. if s_id x = i then apply_update d x else x) (subscriptions s)\<rparr>)))"

text \<open>
  The invariant of the specification: at most one active subscription exists for a pair
  of event type and target URL.
\<close>

definition unique_active :: "system \<Rightarrow> bool" where
  "unique_active s =
     distinct (map (\<lambda>x. (s_event_type x, s_target_url x)) (filter s_is_active (subscriptions s)))"

definition deliveryLog_findUnique :: "nat \<Rightarrow> system \<Rightarrow> delivery_log_row option" where
  "deliveryLog_findUnique i s = find (\<lambda>l. l_id l = i) (delivery_logs s)"

definition deliveryLog_create ::
  "nat \<Rightarrow> nat \<Rightarrow> delivery_status \<Rightarrow> nat \<Rightarrow> nat \<Rightarrow> system \<Rightarrow> delivery_log_row \<times> system" where
  "deliveryLog_create eventId subscriptionId st attempt attempted s =
     (let row = \<lparr>l_id = next_id s, l_event_id = eventId, l_subscription_id = subscriptionId,
                 l_status = st, l_attempt_count = attempt, l_attempted_at = attempted,
                 l_response_status_code = None, l_response_body = None,
                 l_error_message = None\<rparr>
      in (row, s\<lparr>delivery_logs := delivery_logs s @ [row], next_id := Suc (next_id s)\<rparr>))"

definition deliveryLog_update ::
  "nat \<Rightarrow> (delivery_log_row \<Rightarrow> delivery_log_row) \<Rightarrow> system \<Rightarrow> system" where
  "deliveryLog_update i f s =
     s\<lparr>delivery_logs := map (\<lambda>l. if l_id l = i then f l else l) (delivery_logs s)\<rparr>"

subsection \<open>createSubscription\<close>

definition internal_error :: "string \<Rightarrow> response" where
  "internal_error msg = \<lparr>status = 500, json =
     [(''success'', JBool False), (''error'', JLit msg), (''code'', JLit ''INTERNAL_ERROR'')]\<rparr>"

text \<open>
  \<open>createSubscription\<close>, given the request body, the clock and the random bytes of the
  secret. A truthy event type or URL that is no string passes the two checks of the
  controller and then fails Prisma's validation, which the \<^verbatim>\<open>catch\<close> turns into 500.
\<close>

definition createSubscription ::
  "runtime \<Rightarrow> body_fields \<Rightarrow> nat \<Rightarrow> 8 word list \<Rightarrow> system \<Rightarrow> response \<times> system" where
  "createSubscription rt b now randomBytes s =
     (if \<not> truthy (b_eventType b) \<or> \<not> truthy (b_targetUrl b) then
        (\<lparr>status = 400, json =
           [(''success'', JBool False),
            (''error'', JLit ''eventType and targetUrl are required''),
            (''code'', JLit ''VALIDATION_ERROR'')]\<rparr>, s)
      else if \<not> isValidWebhookUrl rt (b_targetUrl b) then
        (\<lparr>status = 400, json =
           [(''success'', JBool False),
            (''error'', JLit ''Invalid webhook URL format''),
            (''code'', JLit ''INVALID_URL'')]\<rparr>, s)
      else
        (case (b_eventType b, b_targetUrl b) of
           (String et, String url) \<Rightarrow>
             (case subscription_findFirst_active et url s of
                Some existingSubscription \<Rightarrow>
                  (\<lparr>status = 409, json =
                     [(''success'', JBool False),
                      (''error'', JLit ''Active subscription already exists for this event type and URL''),
                      (''code'', JLit ''DUPLICATE_SUBSCRIPTION'')]\<rparr>, s)
              | None \<Rightarrow>
                  let secretKey = generateSecretKey randomBytes;
                      (subscription, s1) = subscription_create et url secretKey True now now s
                  in (\<lparr>status = 201, json =
                        [(''success'', JBool True),
                         (''message'', JLit ''Subscription created successfully''),
                         (''subscription'', JObj
                            [(''id'', JNum (s_id subscription)),
                             (''eventType'', JStr (s_event_type subscription)),
                             (''targetUrl'', JStr (s_target_url subscription)),
                             (''isActive'', JBool (s_is_active subscription)),
                             (''createdAt'', JNum (s_created_at subscription)),
                             (''secretKey'', JStr (s_secret_key subscription))])]\<rparr>, s1))
         | _ \<Rightarrow> (internal_error ''Failed to create subscription'', s)))"

subsection \<open>updateSubscription\<close>

text \<open>
  The answer of \<open>updateSubscription\<close> to what \<^verbatim>\<open>prisma.subscription.update\<close> returned
  or threw (lines 172 to 200).
\<close>

definition updateSubscription_respond :: "js_error + subscription_row \<Rightarrow> response" where
  "updateSubscription_respond r =
     (case r of
        Inr subscription \<Rightarrow>
          \<lparr>status = 200, json =
             [(''success'', JBool True),
              (''message'', JLit ''Subscription updated successfully''),
              (''subscription'', JObj
                 [(''id'', JNum (s_id subscription)),
                  (''eventType'', JStr (s_event_type subscription)),
                  (''targetUrl'', JStr (s_target_url subscription)),
                  (''isActive'', JBool (s_is_active subscription)),
                  (''createdAt'', JNum (s_created_at subscription)),
                  (''updatedAt'', JNum (s_updated_at subscription))])]\<rparr>
      | Inl err \<Rightarrow>
          if str_includes (message err) ''Record to update not found''
          then \<lparr>status = 404, json =
                 [(''success'', JBool False),
                  (''error'', JLit ''Subscription not found''),
                  (''code'', JLit ''SUBSCRIPTION_NOT_FOUND'')]\<rparr>
          else internal_error ''Failed to update subscription'')"

text \<open>
  \<open>updateSubscription\<close>, given the route parameter (\<open>None\<close> when empty), the body and
  the clock. A field that is \<^verbatim>\<open>undefined\<close> in the body is left out of the update.
\<close>

definition updateSubscription ::
  "runtime \<Rightarrow> nat option \<Rightarrow> body_fields \<Rightarrow> nat \<Rightarrow> system \<Rightarrow> response \<times> system" where
  "updateSubscription rt subscriptionId b now s =
     (case subscriptionId of
        None \<Rightarrow>
          (\<lparr>status = 400, json =
             [(''success'', JBool False),
              (''error'', JLit ''Subscription ID is required''),
              (''code'', JLit ''MISSING_SUBSCRIPTION_ID'')]\<rparr>, s)
      | Some i \<Rightarrow>
          if b_targetUrl b \<noteq> Undefined \<and> \<not> isValidWebhookUrl rt (b_targetUrl b) then
            (\<lparr>status = 400, json =
               [(''success'', JBool False),
                (''error'', JLit ''Invalid webhook URL format''),
                (''code'', JLit ''INVALID_URL'')]\<rparr>, s)
          else
            let updateData = \<lparr>d_updated_at = now, d_event_type = b_eventType b,
                               d_target_url = b_targetUrl b, d_is_active = b_isActive b\<rparr>
            in (case subscription_update i updateData s of
                  Inr (subscription, s1) \<Rightarrow> (updateSubscription_respond (Inr subscription), s1)
                | Inl err \<Rightarrow> (updateSubscription_respond (Inl err), s)))"

subsection \<open>retryFailedDelivery\<close>

text \<open>
  \<open>retryFailedDelivery\<close>, given the route parameter (\<open>None\<close> when empty). The log is
  read with its subscription; were the subscription's row gone, reading its
  \<open>is_active\<close> would throw, which the \<^verbatim>\<open>catch\<close> turns into 500, as it does a failure
  of the queue.
\<close>

definition retryFailedDelivery :: "runtime \<Rightarrow> nat option \<Rightarrow> system \<Rightarrow> response \<times> system" where
  "retryFailedDelivery rt logId s =
     (case logId of
        None \<Rightarrow>
          (\<lparr>status = 400, json =
             [(''success'', JBool False),
              (''error'', JLit ''Delivery log ID is required''),
              (''code'', JLit ''MISSING_LOG_ID'')]\<rparr>, s)
      | Some i \<Rightarrow>
          (case deliveryLog_findUnique i s of
             None \<Rightarrow>
               (\<lparr>status = 404, json =
                  [(''success'', JBool False),
                   (''error'', JLit ''Delivery log not found''),
                   (''code'', JLit ''LOG_NOT_FOUND'')]\<rparr>, s)
           | Some deliveryLog \<Rightarrow>
               if l_status deliveryLog = Success then
                 (\<lparr>status = 400, json =
                    [(''success'', JBool False),
                     (''error'', JLit ''Cannot retry successful delivery''),
                     (''code'', JLit ''INVALID_RETRY'')]\<rparr>, s)
               else
                 (case subscription_findUnique (l_subscription_id deliveryLog) s of
                    None \<Rightarrow> (internal_error ''Failed to retry delivery'', s)
                  | Some subscription \<Rightarrow>
                      if \<not> s_is_active subscription then
                        (\<lparr>status = 400, json =
                           [(''success'', JBool False),
                            (''error'', JLit ''Cannot retry delivery for inactive subscription''),
                            (''code'', JLit ''INACTIVE_SUBSCRIPTION'')]\<rparr>, s)
                      else
                        (case queueWebhookDelivery rt (l_event_id deliveryLog)
                                (l_subscription_id deliveryLog) s of
                           Inl err \<Rightarrow> (internal_error ''Failed to retry delivery'', s)
                         | Inr s1 \<Rightarrow>
                             (\<lparr>status = 200, json =
                                [(''success'', JBool True),
                                 (''message'', JLit ''Retry job queued successfully''),
                                 (''logId'', JNum i),
                                 (''eventId'', JNum (l_event_id deliveryLog)),
                                 (''subscriptionId'', JNum (l_subscription_id deliveryLog))]\<rparr>,
                              s1)))))"

section \<open>WebhookWorker\<close>

text \<open>
  What the network does with one POST: a response came, with its status and parsed
  body, or none did (DNS, connect, TLS, timeout, abort) and axios has the error text.
\<close>

datatype http_outcome =
    Responded http_response
  | NoResponse string

type_synonym network = "js_string \<Rightarrow> js_string \<Rightarrow> headers \<Rightarrow> http_outcome"

text \<open>
  \<^verbatim>\<open>axios.post\<close> with \<^verbatim>\<open>validateStatus: (status) => status >= 200 && status < 300\<close>:
  it resolves with a response of such a status and rejects with an error otherwise.
\<close>

definition axios_post ::
  "network \<Rightarrow> js_string \<Rightarrow> js_string \<Rightarrow> headers \<Rightarrow> js_error + http_response" where
  "axios_post net url payload hs =
     (case net url payload hs of
        Responded r \<Rightarrow>
          if resp_status r \<ge> 200 \<and> resp_status r < 300 then Inr r
          else Inl (AxiosError (''Request failed with status code '' @ show_nat (resp_status r))
                      (Some r))
      | NoResponse msg \<Rightarrow> Inl (AxiosError msg None))"

datatype worker_result =
    Processed nat "string option"
  | Delivered nat nat

definition queueIndividualDelivery :: "runtime \<Rightarrow> nat \<Rightarrow> nat \<Rightarrow> system \<Rightarrow> js_error + system" where
  "queueIndividualDelivery rt eventId subscriptionId s =
     queue_add \<lparr>job_name = ''deliver-webhook'',
                job_data = DeliverWebhook eventId subscriptionId,
                opt_attempts = max_retry_attempts rt, opt_backoff_delay = Some 2000,
                attemptsMade = 0\<rparr> s"

text \<open>The \<^verbatim>\<open>Promise.all\<close> over one \<open>queueIndividualDelivery\<close> a subscription.\<close>

fun queueAll :: "runtime \<Rightarrow> nat \<Rightarrow> subscription_row list \<Rightarrow> system \<Rightarrow> js_error + system" where
  "queueAll rt eventId [] s = Inr s"
| "queueAll rt eventId (subscription # rest) s =
     (case queueIndividualDelivery rt eventId (s_id subscription) s of
        Inl err \<Rightarrow> Inl err
      | Inr s1 \<Rightarrow> queueAll rt eventId rest s1)"

definition processWebhookDeliveries ::
  "runtime \<Rightarrow> nat \<Rightarrow> js_string \<Rightarrow> system \<Rightarrow> (js_error + worker_result) \<times> system" where
  "processWebhookDeliveries rt eventId et s =
     (let subs = filter (\<lambda>x. s_event_type x = et \<and> s_is_active x = True) (subscriptions s)
      in if length subs = 0 then (Inr (Processed 0 (Some ''No active subscriptions'')), s)
         else
           (case queueAll rt eventId subs s of
              Inl err \<Rightarrow> (Inl err, s)
            | Inr s1 \<Rightarrow> (Inr (Processed (length subs) None), s1)))"

text \<open>
  The request one delivery makes (lines 173 to 188): the target, the body and the
  headers.
\<close>

definition webhook_payload :: "runtime \<Rightarrow> event_row \<Rightarrow> js_string" where
  "webhook_payload rt event =
     stringify_envelope rt (e_id event) (e_event_type event) (e_payload event)
       (e_received_at event) (e_idempotency_key event)"

definition webhook_headers :: "runtime \<Rightarrow> event_row \<Rightarrow> subscription_row \<Rightarrow> nat \<Rightarrow> headers" where
  "webhook_headers rt event subscription now =
     generateWebhookHeaders rt (webhook_payload rt event) (s_secret_key subscription)
       (e_event_type event) (e_id event) now"

text \<open>
  \<open>processWebhookDelivery\<close> for the job data \<^verbatim>\<open>{eventId, subscriptionId}\<close>. \<open>now\<close> is
  the clock when the attempt starts and \<open>fin\<close> when the POST has settled. The function
  reads nothing else of the job. An \<open>Inl\<close> is the error it throws to the queue.
\<close>

definition processWebhookDelivery ::
  "runtime \<Rightarrow> network \<Rightarrow> nat \<Rightarrow> nat \<Rightarrow> nat \<Rightarrow> nat \<Rightarrow> system \<Rightarrow> (js_error + worker_result) \<times> system" where
  "processWebhookDelivery rt net now fin eventId subscriptionId s =
     (case event_findUnique_by_id eventId s of
        None \<Rightarrow> (Inl (Error (''Event not found: '' @ show_nat eventId)), s)
      | Some event \<Rightarrow>
          (case subscription_findUnique subscriptionId s of
             None \<Rightarrow> (Inl (Error (''Subscription not found: '' @ show_nat subscriptionId)), s)
           | Some subscription \<Rightarrow>
               if \<not> s_is_active subscription then
                 (Inl (Error (''Subscription is inactive: '' @ show_nat subscriptionId)), s)
               else
                 let (deliveryLog, s1) = deliveryLog_create eventId subscriptionId Pending 1 now s
                 in (case axios_post net (s_target_url subscription) (webhook_payload rt event)
                            (webhook_headers rt event subscription now) of
                       Inr resp \<Rightarrow>
                         (Inr (Delivered (resp_status resp) (l_id deliveryLog)),
                          deliveryLog_update (l_id deliveryLog)
                            (\<lambda>l. l\<lparr>l_status := Success,
                                    l_response_status_code := Some (resp_status resp),
                                    l_response_body := Some (take 1000 (data_json resp)),
                                    l_attempted_at := fin\<rparr>) s1)
                     | Inl deliveryError \<Rightarrow>
                         let errorMessage = (if message deliveryError = [] then ''Unknown error''
                                             else message deliveryError);
                             statusCode = (case response deliveryError of
                                             Some r \<Rightarrow> resp_status r | None \<Rightarrow> 0);
                             responseBody = (case response deliveryError of
                                               Some r \<Rightarrow> if data_truthy r
                                                         then Some (take 1000 (data_json r))
                                                         else None
                                             | None \<Rightarrow> None)
                         in (Inl deliveryError,
                             deliveryLog_update (l_id deliveryLog)
                               (\<lambda>l. l\<lparr>l_status := Failed,
                                       l_response_status_code := Some statusCode,
                                       l_response_body := responseBody,
                                       l_error_message := Some errorMessage,
                                       l_attempted_at := fin\<rparr>) s1))))"

text \<open>
  \<open>processJob\<close> is a static method that reaches the two handlers through \<^verbatim>\<open>this\<close>. The
  receiver is the class when the method is called on \<open>WebhookWorker\<close>. \<open>initialize\<close>
  hands the function to the queue as \<^verbatim>\<open>this.processJob\<close>, without its class (line 28): a
  queue that calls it as a method of its own worker object, or as a plain function,
  gives it another receiver, on which neither handler exists.
\<close>

datatype receiver =
    WebhookWorker_class
  | Worker_instance
  | No_receiver

text \<open>The \<^verbatim>\<open>TypeError\<close> of calling the method \<open>name\<close> on a receiver.\<close>

definition method_missing :: "receiver \<Rightarrow> string \<Rightarrow> js_error" where
  "method_missing self name =
     (case self of
        No_receiver \<Rightarrow> Error (''Cannot read properties of undefined (reading '' @ [CHR 0x27] @ name @ [CHR 0x27] @ '')'')
      | _ \<Rightarrow> Error (''this.'' @ name @ '' is not a function''))"

definition processJob ::
  "receiver \<Rightarrow> runtime \<Rightarrow> network \<Rightarrow> nat \<Rightarrow> nat \<Rightarrow> job \<Rightarrow> system
   \<Rightarrow> (js_error + worker_result) \<times> system" where
  "processJob self rt net now fin j s =
     (case job_data j of
        ProcessWebhookDeliveries eventId et \<Rightarrow>
          if self = WebhookWorker_class then processWebhookDeliveries rt eventId et s
          else (Inl (method_missing self ''processWebhookDeliveries''), s)
      | DeliverWebhook eventId subscriptionId \<Rightarrow>
          if self = WebhookWorker_class
          then processWebhookDelivery rt net now fin eventId subscriptionId s
          else (Inl (method_missing self ''processWebhookDelivery''), s)
      | UnknownJob ty \<Rightarrow> (Inl (Error (''Unknown job type: '' @ ty)), s))"

text \<open>
  The worker run on a sequence of jobs, each with the network and the clock of its
  attempt, under a receiver. Whatever order, duplicates and retries the queue chooses,
  the worker sees some such sequence.
\<close>

fun worker_run ::
  "receiver \<Rightarrow> runtime \<Rightarrow> (network \<times> nat \<times> nat \<times> job) list \<Rightarrow> system \<Rightarrow> system" where
  "worker_run self rt [] s = s"
| "worker_run self rt ((net, now, fin, j) # rest) s =
     worker_run self rt rest (snd (processJob self rt net now fin j s))"

definition logs_of :: "nat \<Rightarrow> system \<Rightarrow> delivery_log_row list" where
  "logs_of subscriptionId s = filter (\<lambda>l. l_subscription_id l = subscriptionId) (delivery_logs s)"

text \<open>
  The store draws a fresh id for every row: the ids of the delivery logs it holds lie
  below the next one it will draw.
\<close>

definition ids_fresh :: "system \<Rightarrow> bool" where
  "ids_fresh s = list_all (\<lambda>l. l_id l < next_id s) (delivery_logs s)"

section \<open>Sizes in bytes\<close>

text \<open>
  The number of bytes of a text once encoded as UTF-8, which is how a JSON document
  travels: one byte for a code unit below 0x80, two below 0x800, four for a surrogate
  pair and three for any other unit.
\<close>

definition high_surrogate :: "16 word \<Rightarrow> bool" where
  "high_surrogate u = (0xD800 \<le> u \<and> u \<le> 0xDBFF)"

definition low_surrogate :: "16 word \<Rightarrow> bool" where
  "low_surrogate u = (0xDC00 \<le> u \<and> u \<le> 0xDFFF)"

definition unit_bytes :: "16 word \<Rightarrow> nat" where
  "unit_bytes u = (if u < 0x80 then 1 else if u < 0x800 then 2 else 3)"

fun utf8_length :: "js_string \<Rightarrow> nat" where
  "utf8_length [] = 0"
| "utf8_length [u] = unit_bytes u"
| "utf8_length (u # v # us) =
     (if high_surrogate u \<and> low_surrogate v then 4 + utf8_length us
      else unit_bytes u + utf8_length (v # us))"

definition ascii :: "js_string \<Rightarrow> bool" where
  "ascii t = list_all (\<lambda>u. u < 0x80) t"

section \<open>Concrete inputs\<close>

text \<open>An empty store and queue, and requests built from an event type and a payload.\<close>

definition empty_system :: system where
  "empty_system = \<lparr>events = [], subscriptions = [], delivery_logs = [], next_id = 1,
                    queue = [], queue_up = True\<rparr>"

definition event_body :: "js_string \<Rightarrow> js_string \<Rightarrow> body_fields" where
  "event_body et text = \<lparr>b_eventType = String et, b_payload = Object text,
      b_targetUrl = Undefined, b_description = Undefined, b_isActive = Undefined\<rparr>"

definition post_event :: "js_string \<Rightarrow> js_string \<Rightarrow> js_string \<Rightarrow> event_request" where
  "post_event k et text = \<lparr>x_idempotency_key = Some k, body = Some (event_body et text)\<rparr>"

text \<open>Two requests with the key \<^verbatim>\<open>k1\<close> and different bodies.\<close>

definition request_A :: event_request where
  "request_A = post_event (js ''k1'') (js ''user.created'') (js ''{}'')"

definition request_B :: event_request where
  "request_B = post_event (js ''k1'') (js ''order.paid'') (js ''[]'')"

text \<open>A request with a key of its own.\<close>

definition request_C :: event_request where
  "request_C = post_event (js ''k2'') (js ''user.created'') (js ''{}'')"

text \<open>
  The text of the payload \<^verbatim>\<open>{"ab":"..."}\<close> whose string holds 524284 times the letter
  U+00E9: 524293 code units, and 9 + 2 * 524284 bytes in UTF-8.
\<close>

definition wide_payload_text :: js_string where
  "wide_payload_text =
     [0x7B, 0x22, 0x61, 0x62, 0x22, 0x3A, 0x22] @ replicate 524284 0xE9 @ [0x22, 0x7D]"

text \<open>
  A runtime for the concrete inputs: the URL parser on the two prefixes it is asked
  about, and stand-ins for the digest and for the serializer of the envelope. The
  theorems hold for every runtime.
\<close>

definition example_runtime :: runtime where
  "example_runtime =
     \<lparr>env_MAX_RETRY_ATTEMPTS = None,
      url_protocol = (\<lambda>v. case v of
          String u \<Rightarrow> if prefix (js ''https://'') u then Some ''https:''
                      else if prefix (js ''http://'') u then Some ''http:'' else None
        | _ \<Rightarrow> None),
      hmac_sha256 = (\<lambda>secret text. [of_nat (length secret), of_nat (length text)]),
      stringify_envelope = (\<lambda>i et p t k.
          js (show_nat i) @ et @ (case p of Object text \<Rightarrow> text | _ \<Rightarrow> []) @ js (show_nat t) @ k)\<rparr>"

text \<open>Bodies of the admin requests, and the target of the examples.\<close>

definition subscription_body :: "js_value \<Rightarrow> js_value \<Rightarrow> js_value \<Rightarrow> body_fields" where
  "subscription_body et url active = \<lparr>b_eventType = et, b_payload = Undefined,
      b_targetUrl = url, b_description = Undefined, b_isActive = active\<rparr>"

definition sink :: js_string where
  "sink = js ''http://sink/ok''"

text \<open>
  Four admin requests on the empty system: create a subscription, deactivate it, create
  it again with the same inputs, and reactivate the first. The result is the last
  response and the system it leaves.
\<close>

definition two_active_run :: "response \<times> system" where
  "two_active_run =
     (let create = subscription_body (String (js ''user.created'')) (String sink) Undefined;
          (r1, s1) = createSubscription example_runtime create 10 (replicate 32 0x5A) empty_system;
          (r2, s2) = updateSubscription example_runtime (Some 1)
                       (subscription_body Undefined Undefined (Boolean False)) 20 s1;
          (r3, s3) = createSubscription example_runtime create 30 (replicate 32 0xA5) s2
      in updateSubscription example_runtime (Some 1)
           (subscription_body Undefined Undefined (Boolean True)) 40 s3)"

text \<open>
  A system with event 1, subscription 2 and delivery log 3 of that pair, the log in the
  given status and the subscription active or not.
\<close>

definition retry_system :: "delivery_status \<Rightarrow> bool \<Rightarrow> system" where
  "retry_system st active =
     \<lparr>events = [\<lparr>e_id = 1, e_idempotency_key = js ''k1'', e_event_type = js ''user.created'',
                  e_payload = Object (js ''{}''), e_received_at = 5\<rparr>],
      subscriptions = [\<lparr>s_id = 2, s_event_type = js ''user.created'',
                         s_target_url = js ''http://sink/ok'', s_secret_key = js ''00'',
                         s_is_active = active, s_created_at = 1, s_updated_at = 1\<rparr>],
      delivery_logs = [\<lparr>l_id = 3, l_event_id = 1, l_subscription_id = 2, l_status = st,
                         l_attempt_count = 1, l_attempted_at = 7,
                         l_response_status_code = Some (if st = Success then 200 else 500),
                         l_response_body = None,
                         l_error_message = (if st = Success then None
                            else Some ''Request failed with status code 500'')\<rparr>],
      next_id = 4, queue = [], queue_up = True\<rparr>"

text \<open>
  A system with event 1 and subscription 2, active or not, and no delivery log yet; a
  sink that answers 500 to every request and one that cannot be reached; and the delivery
  job of event 1 for a subscription, after a number of attempts.
\<close>

definition event_1 :: event_row where
  "event_1 = \<lparr>e_id = 1, e_idempotency_key = js ''k1'', e_event_type = js ''user.created'',
               e_payload = Object (js ''{}''), e_received_at = 5\<rparr>"

definition subscription_2 :: "bool \<Rightarrow> subscription_row" where
  "subscription_2 active = \<lparr>s_id = 2, s_event_type = js ''user.created'',
      s_target_url = js ''http://sink/ok'', s_secret_key = js ''00'',
      s_is_active = active, s_created_at = 1, s_updated_at = 1\<rparr>"

definition delivery_system :: "bool \<Rightarrow> system" where
  "delivery_system active =
     \<lparr>events = [event_1], subscriptions = [subscription_2 active], delivery_logs = [],
      next_id = 3, queue = [], queue_up = True\<rparr>"

definition sink_500 :: network where
  "sink_500 = (\<lambda>url text hs. Responded \<lparr>resp_status = 500, data_truthy = True, data_json = js ''{}''\<rparr>)"

definition sink_down :: network where
  "sink_down = (\<lambda>url text hs. NoResponse ''connect ECONNREFUSED 127.0.0.1:80'')"

definition delivery_job :: "nat \<Rightarrow> nat \<Rightarrow> job" where
  "delivery_job subscriptionId made =
     \<lparr>job_name = ''deliver-webhook'', job_data = DeliverWebhook 1 subscriptionId,
      opt_attempts = 3, opt_backoff_delay = Some 2000, attemptsMade = made\<rparr>"

text \<open>
  The three attempts of that delivery for subscription 2, each a call of
  \<open>processWebhookDelivery\<close> against the sink that answers 500, at the times the backoff
  of 2 s and 4 s gives.
\<close>

definition three_attempts :: system where
  "three_attempts =
     (let s1 = snd (processWebhookDelivery example_runtime sink_500 100 101 1 2
                      (delivery_system True));
          s2 = snd (processWebhookDelivery example_runtime sink_500 2100 2101 1 2 s1)
      in snd (processWebhookDelivery example_runtime sink_500 6100 6101 1 2 s2))"

section \<open>Ingestion: validation, idempotency and the insert race\<close>

subsection \<open>Auxiliary facts\<close>

lemma js_simps [simp]: "js [] = []" "js (c # cs) = of_char c # js cs"
  by (simp_all add: js_def)

lemma validate_valid_iff:
  "isValid (validateEventRequest bd) \<longleftrightarrow>
     (\<exists>b t p. bd = Some b \<and> b_eventType b = String t \<and> t \<noteq> [] \<and> trim t \<noteq> []
        \<and> eventTypeRegex_test t \<and> b_payload b = Object p \<and> length p \<le> 1024 * 1024)"
  by (auto simp: validateEventRequest_def invalid_def split: option.splits js_value.splits)

lemma str_includes_prefix: "prefix sub t \<Longrightarrow> str_includes t sub"
  by (cases t) auto

lemma unique_msg: "str_includes ''Unique constraint failed on the fields: (idempotency_key)'' ''Unique constraint''"
  by (rule str_includes_prefix) simp

lemma find_key_None: "event_findUnique_by_key k s = None \<longleftrightarrow> \<not> (\<exists>e \<in> set (events s). e_idempotency_key e = k)"
  by (auto simp: event_findUnique_by_key_def find_None_iff)

lemma processEvent_known_key:
  assumes "x_idempotency_key req = Some k" "k \<noteq> []" "isValid (validateEventRequest (body req))"
    and "event_findUnique_by_key k s = Some e"
  shows "processEvent req now ms s =
     (\<lparr>status = 202, json =
         [(''success'', JBool True),
          (''message'', JLit ''Event already processed (idempotent)''),
          (''eventId'', JNum (e_id e)),
          (''idempotencyKey'', JStr (e_idempotency_key e)),
          (''processedAt'', JNum (e_received_at e))]\<rparr>, s)"
  using assms by (simp add: processEvent_def processEvent_check_def)

lemma processEvent_check_new_key:
  assumes "x_idempotency_key req = Some k" "k \<noteq> []" "isValid (validateEventRequest (body req))"
    and "event_findUnique_by_key k s = None"
  shows "processEvent_check req s = None"
  using assms by (simp add: processEvent_check_def)

lemma find_app:
  "find P (xs @ ys) = (case find P xs of None \<Rightarrow> find P ys | Some x \<Rightarrow> Some x)"
  by (induction xs) auto

lemma find_key_append:
  "event_findUnique_by_key k s = None \<Longrightarrow> e_idempotency_key ev = k \<Longrightarrow>
   events s' = events s @ [ev] \<Longrightarrow> event_findUnique_by_key k s' = Some ev"
  by (simp add: event_findUnique_by_key_def find_app)

lemma processEvent_store_new_key:
  assumes k: "x_idempotency_key req = Some k"
    and v: "isValid (validateEventRequest (body req))"
    and n: "event_findUnique_by_key k s = None"
  shows "\<exists>ev r s'. processEvent_store req now ms s = (r, s') \<and> status r = 202
     \<and> json_field r ''eventId'' = Some (JNum (e_id ev))
     \<and> json_field r ''receivedAt'' = Some (JNum now)
     \<and> e_idempotency_key ev = k \<and> e_id ev = next_id s \<and> e_received_at ev = now
     \<and> events s' = events s @ [ev]
     \<and> subscriptions s' = subscriptions s \<and> delivery_logs s' = delivery_logs s
     \<and> queue_up s' = queue_up s
     \<and> queue s' = (if queue_up s
          then queue s @ [\<lparr>job_name = ''process-webhook-deliveries'',
                           job_data = ProcessWebhookDeliveries (e_id ev) (e_event_type ev),
                           opt_attempts = 1, opt_backoff_delay = None, attemptsMade = 0\<rparr>]
          else queue s)"
proof -
  from v obtain b t p where b: "body req = Some b" "b_eventType b = String t" "b_payload b = Object p"
    by (auto simp: validate_valid_iff)
  from n have fresh: "\<not> (\<exists>e \<in> set (events s). e_idempotency_key e = k)"
    by (simp add: find_key_None)
  show ?thesis
    using k b fresh
    by (simp add: processEvent_store_def event_create_def queueWebhookDeliveries_def
        queue_add_def json_field_def Let_def)
qed

lemma processEvent_store_known_key:
  assumes k: "x_idempotency_key req = Some k"
    and v: "isValid (validateEventRequest (body req))"
    and n: "event_findUnique_by_key k s = Some e"
  shows "processEvent_store req now ms s =
     (\<lparr>status = 409, json =
         [(''success'', JBool False),
          (''error'', JLit ''Event with this idempotency key already exists''),
          (''code'', JLit ''DUPLICATE_IDEMPOTENCY_KEY''),
          (''processingTimeMs'', JNum ms)]\<rparr>, s)"
proof -
  from v obtain b t p where b: "body req = Some b" "b_eventType b = String t" "b_payload b = Object p"
    by (auto simp: validate_valid_iff)
  from n have "\<exists>e \<in> set (events s). e_idempotency_key e = k"
    using find_key_None [of k s] by simp
  then show ?thesis
    using k b unique_msg
    by (simp add: processEvent_store_def event_create_def)
qed

subsection \<open>The same idempotency key twice\<close>

text \<open>
  Claim C6. Two valid requests with the same non-empty \<^verbatim>\<open>X-Idempotency-Key\<close>, handled one
  after the other, are both answered 202 with the same event id. The second answer
  carries the id and \<open>received_at\<close> of the event stored under the key, and the second
  request leaves the whole system as it found it: no new event row and no new fan-out
  job. The bodies may differ.
\<close>

theorem duplicate_key_same_event:
  assumes k: "x_idempotency_key req1 = Some k" "x_idempotency_key req2 = Some k" "k \<noteq> []"
    and v: "isValid (validateEventRequest (body req1))" "isValid (validateEventRequest (body req2))"
  shows "let (r1, s1) = processEvent req1 now1 ms1 s; (r2, s2) = processEvent req2 now2 ms2 s1 in
     status r1 = 202 \<and> status r2 = 202
     \<and> (\<exists>e. event_findUnique_by_key k s1 = Some e
           \<and> json_field r1 ''eventId'' = Some (JNum (e_id e))
           \<and> json_field r2 ''eventId'' = Some (JNum (e_id e))
           \<and> json_field r2 ''processedAt'' = Some (JNum (e_received_at e)))
     \<and> events s2 = events s1 \<and> queue s2 = queue s1 \<and> s2 = s1"
proof (cases "event_findUnique_by_key k s")
  case (Some e)
  show ?thesis
    using processEvent_known_key [OF k(1) k(3) v(1) Some, of now1 ms1]
      processEvent_known_key [OF k(2) k(3) v(2) Some, of now2 ms2] Some
    by (simp add: json_field_def)
next
  case None
  from processEvent_store_new_key [OF k(1) v(1) None, of now1 ms1]
  obtain ev r s' where st: "processEvent_store req1 now1 ms1 s = (r, s')" "status r = 202"
      "json_field r ''eventId'' = Some (JNum (e_id ev))" "e_idempotency_key ev = k"
      "events s' = events s @ [ev]"
    by blast
  have p1: "processEvent req1 now1 ms1 s = (r, s')"
    using processEvent_check_new_key [OF k(1) k(3) v(1) None] st(1)
    by (simp add: processEvent_def)
  have f: "event_findUnique_by_key k s' = Some ev"
    using find_key_append [OF None st(4) st(5)] .
  show ?thesis
    using p1 st(2,3) f processEvent_known_key [OF k(2) k(3) v(2) f, of now2 ms2]
    by (simp add: json_field_def)
qed

lemma request_A_valid: "isValid (validateEventRequest (body request_A))"
  by (simp add: request_A_def post_event_def event_body_def validateEventRequest_def
      trim_def js_whitespace_def eventTypeRegex_test_def eventTypeChar_def)

lemma request_B_valid: "isValid (validateEventRequest (body request_B))"
  by (simp add: request_B_def post_event_def event_body_def validateEventRequest_def
      trim_def js_whitespace_def eventTypeRegex_test_def eventTypeChar_def)

lemma request_keys: "x_idempotency_key request_A = Some (js ''k1'')"
    "x_idempotency_key request_B = Some (js ''k1'')" "js ''k1'' \<noteq> []"
  by (simp_all add: request_A_def request_B_def post_event_def)

lemma empty_no_key: "event_findUnique_by_key k empty_system = None"
  by (simp add: event_findUnique_by_key_def empty_system_def)

text \<open>
  The theorem at the two requests with key \<^verbatim>\<open>k1\<close> on the empty system: both answers name
  event 1, received at time 5, and one event and one fan-out job exist afterwards.
\<close>

theorem duplicate_key_same_event_witness:
  "let (r1, s1) = processEvent request_A 5 1 empty_system;
       (r2, s2) = processEvent request_B 9 1 s1
   in status r1 = 202 \<and> status r2 = 202
     \<and> json_field r1 ''eventId'' = Some (JNum 1) \<and> json_field r2 ''eventId'' = Some (JNum 1)
     \<and> json_field r2 ''processedAt'' = Some (JNum 5)
     \<and> length (events s2) = 1 \<and> length (queue s2) = 1 \<and> s2 = s1"
proof -
  have "processEvent request_A 5 1 empty_system =
     (\<lparr>status = 202, json =
         [(''success'', JBool True),
          (''message'', JLit ''Event accepted and queued for processing''),
          (''eventId'', JNum 1),
          (''eventType'', JStr (js ''user.created'')),
          (''idempotencyKey'', JStr (js ''k1'')),
          (''receivedAt'', JNum 5),
          (''processingTimeMs'', JNum 1)]\<rparr>,
      empty_system\<lparr>events := [\<lparr>e_id = 1, e_idempotency_key = js ''k1'',
          e_event_type = js ''user.created'', e_payload = Object (js ''{}''), e_received_at = 5\<rparr>],
        next_id := 2,
        queue := [\<lparr>job_name = ''process-webhook-deliveries'',
                   job_data = ProcessWebhookDeliveries 1 (js ''user.created''),
                   opt_attempts = 1, opt_backoff_delay = None, attemptsMade = 0\<rparr>]\<rparr>)"
    using request_A_valid
    by (simp add: processEvent_def processEvent_check_def processEvent_store_def
        event_create_def queueWebhookDeliveries_def queue_add_def
        event_findUnique_by_key_def request_A_def post_event_def event_body_def
        empty_system_def Let_def)
  then show ?thesis
    using duplicate_key_same_event [OF request_keys request_A_valid request_B_valid,
        of 5 1 empty_system 9 1]
    by (auto simp: json_field_def event_findUnique_by_key_def empty_system_def split: prod.splits)
qed

subsection \<open>Two requests racing on one key\<close>

text \<open>
  Both requests pass the duplicate check before either inserts. The first insert wins;
  the second meets the unique constraint and the handler answers 409, not 202.
\<close>

theorem race_loser_gets_409:
  "processEvent_check request_A empty_system = None
   \<and> processEvent_check request_B empty_system = None
   \<and> status (fst (processEvent_store request_B 6 1
                     (snd (processEvent_store request_A 5 1 empty_system)))) = 409
   \<and> status (fst (processEvent_store request_B 6 1
                     (snd (processEvent_store request_A 5 1 empty_system)))) \<noteq> 202"
proof -
  obtain r s' where st: "processEvent_store request_A 5 1 empty_system = (r, s')"
    by (cases "processEvent_store request_A 5 1 empty_system")
  from processEvent_store_new_key [OF request_keys(1) request_A_valid empty_no_key, of 5 1] st
  obtain ev where ev: "e_idempotency_key ev = js ''k1''" "events s' = events empty_system @ [ev]"
    by auto
  have f: "event_findUnique_by_key (js ''k1'') s' = Some ev"
    using find_key_append [OF empty_no_key ev] .
  show ?thesis
    using st processEvent_check_new_key [OF request_keys(1) request_keys(3) request_A_valid empty_no_key]
      processEvent_check_new_key [OF request_keys(2) request_keys(3) request_B_valid empty_no_key]
      processEvent_store_known_key [OF request_keys(2) request_B_valid f, of 6 1]
    by simp
qed

text \<open>
  Claim C3, as the code has it. When two valid requests with the same key both pass the
  duplicate check on a store that does not hold the key, the first to insert is answered
  202, adds exactly one event row and enqueues the only fan-out job (when the queue takes
  it); the second observes the unique-constraint error and is answered 409 with code
  \<^verbatim>\<open>DUPLICATE_IDEMPOTENCY_KEY\<close>, changing nothing.
\<close>

theorem race_winner_and_loser:
  assumes k: "x_idempotency_key reqA = Some k" "x_idempotency_key reqB = Some k" "k \<noteq> []"
    and v: "isValid (validateEventRequest (body reqA))" "isValid (validateEventRequest (body reqB))"
    and n: "event_findUnique_by_key k s = None"
  shows "processEvent_check reqA s = None \<and> processEvent_check reqB s = None
     \<and> (let (rA, s1) = processEvent_store reqA nowA msA s;
             (rB, s2) = processEvent_store reqB nowB msB s1
         in status rA = 202 \<and> status rB = 409
           \<and> json_field rB ''code'' = Some (JLit ''DUPLICATE_IDEMPOTENCY_KEY'')
           \<and> (\<exists>ev. events s1 = events s @ [ev] \<and> e_idempotency_key ev = k
                  \<and> json_field rA ''eventId'' = Some (JNum (e_id ev))
                  \<and> queue s1 = (if queue_up s
                       then queue s @ [\<lparr>job_name = ''process-webhook-deliveries'',
                              job_data = ProcessWebhookDeliveries (e_id ev) (e_event_type ev),
                              opt_attempts = 1, opt_backoff_delay = None, attemptsMade = 0\<rparr>]
                       else queue s))
           \<and> s2 = s1)"
proof -
  obtain rA s1 where st: "processEvent_store reqA nowA msA s = (rA, s1)"
    by (cases "processEvent_store reqA nowA msA s")
  from processEvent_store_new_key [OF k(1) v(1) n, of nowA msA] st
  obtain ev where ev: "status rA = 202" "json_field rA ''eventId'' = Some (JNum (e_id ev))"
      "e_idempotency_key ev = k" "events s1 = events s @ [ev]"
      "queue s1 = (if queue_up s
          then queue s @ [\<lparr>job_name = ''process-webhook-deliveries'',
                           job_data = ProcessWebhookDeliveries (e_id ev) (e_event_type ev),
                           opt_attempts = 1, opt_backoff_delay = None, attemptsMade = 0\<rparr>]
          else queue s)"
    by auto
  have f: "event_findUnique_by_key k s1 = Some ev"
    using find_key_append [OF n ev(3) ev(4)] .
  have B: "processEvent_store reqB nowB msB s1 =
     (\<lparr>status = 409, json =
         [(''success'', JBool False),
          (''error'', JLit ''Event with this idempotency key already exists''),
          (''code'', JLit ''DUPLICATE_IDEMPOTENCY_KEY''),
          (''processingTimeMs'', JNum msB)]\<rparr>, s1)"
    using processEvent_store_known_key [OF k(2) v(2) f] .
  have c: "processEvent_check reqA s = None" "processEvent_check reqB s = None"
    using processEvent_check_new_key [OF k(1) k(3) v(1) n]
      processEvent_check_new_key [OF k(2) k(3) v(2) n] by simp_all
  have "\<exists>ev. events s1 = events s @ [ev] \<and> e_idempotency_key ev = k
                  \<and> json_field rA ''eventId'' = Some (JNum (e_id ev))
                  \<and> queue s1 = (if queue_up s
                       then queue s @ [\<lparr>job_name = ''process-webhook-deliveries'',
                              job_data = ProcessWebhookDeliveries (e_id ev) (e_event_type ev),
                              opt_attempts = 1, opt_backoff_delay = None, attemptsMade = 0\<rparr>]
                       else queue s)"
    using ev by blast
  then show ?thesis
    using c st B ev(1) by (simp add: json_field_def)
qed

text \<open>The race of the two requests with key \<^verbatim>\<open>k1\<close> on the empty system.\<close>

theorem race_winner_and_loser_witness:
  "processEvent_check request_A empty_system = None
   \<and> processEvent_check request_B empty_system = None
   \<and> (let (rA, s1) = processEvent_store request_A 5 1 empty_system;
           (rB, s2) = processEvent_store request_B 6 1 s1
       in status rA = 202 \<and> status rB = 409
          \<and> json_field rB ''code'' = Some (JLit ''DUPLICATE_IDEMPOTENCY_KEY'')
          \<and> length (events s1) = 1 \<and> length (queue s1) = 1 \<and> s2 = s1)"
  using race_winner_and_loser [OF request_keys request_A_valid request_B_valid empty_no_key,
      of 5 1 6 1]
  by (auto simp: empty_system_def split: prod.splits)

subsection \<open>The payload size limit\<close>

text \<open>
  The limit of \<open>validateEventRequest\<close> is on the number of UTF-16 code units of the
  serialized payload. That number never exceeds the number of bytes and equals it for
  ASCII text.
\<close>

lemma utf8_length_no_surrogates:
  "list_all (\<lambda>u. \<not> high_surrogate u) t \<Longrightarrow> utf8_length t = sum_list (map unit_bytes t)"
  by (induction t rule: utf8_length.induct) auto

lemma unit_bytes_pos: "1 \<le> unit_bytes u"
  by (simp add: unit_bytes_def)

lemma length_le_utf8_length: "length t \<le> utf8_length t"
proof (induction t rule: utf8_length.induct)
  case 1
  show ?case by simp
next
  case (2 u)
  show ?case using unit_bytes_pos [of u] by simp
next
  case (3 u v us)
  then show ?case using unit_bytes_pos [of u] by (auto split: if_splits)
qed

lemma ascii_utf8_length: "ascii t \<Longrightarrow> utf8_length t = length t"
proof -
  assume a: "ascii t"
  have "list_all (\<lambda>u. \<not> high_surrogate u) t"
    using a unfolding ascii_def high_surrogate_def list_all_iff
    by (auto simp: word_less_def word_le_def)
  then have "utf8_length t = sum_list (map unit_bytes t)"
    by (rule utf8_length_no_surrogates)
  also have "map unit_bytes t = map (\<lambda>u. 1) t"
    using a unfolding ascii_def list_all_iff by (auto simp: unit_bytes_def)
  also have "sum_list (map (\<lambda>u. 1::nat) t) = length t"
    by (induction t) auto
  finally show ?thesis .
qed

lemma wide_payload_length: "length wide_payload_text = 524293"
  by (simp add: wide_payload_text_def)

lemma wide_payload_bytes: "utf8_length wide_payload_text = 1024 * 1024 + 1"
proof -
  have "list_all (\<lambda>u. \<not> high_surrogate u) wide_payload_text"
    by (simp add: wide_payload_text_def high_surrogate_def list_all_iff)
  then have "utf8_length wide_payload_text = sum_list (map unit_bytes wide_payload_text)"
    by (rule utf8_length_no_surrogates)
  also have "\<dots> = 1024 * 1024 + 1"
    by (simp add: wide_payload_text_def unit_bytes_def sum_list_replicate)
  finally show ?thesis .
qed

lemma user_created_ok:
  "trim (js ''user.created'') \<noteq> []" "eventTypeRegex_test (js ''user.created'')"
  by (simp_all add: trim_def js_whitespace_def eventTypeRegex_test_def eventTypeChar_def)

text \<open>
  Claim C9 asks that a payload of 1 MiB + 1 byte be rejected with 400. The payload
  \<open>wide_payload_text\<close> serializes to 1048577 bytes, yet it has only 524293 code units:
  validation passes and the event is accepted with 202.
\<close>

theorem wide_payload_accepted:
  "utf8_length wide_payload_text = 1024 * 1024 + 1
   \<and> isValid (validateEventRequest (Some (event_body (js ''user.created'') wide_payload_text)))
   \<and> status (fst (processEvent (post_event (js ''k1'') (js ''user.created'') wide_payload_text)
                     5 1 empty_system)) = 202"
proof -
  have v: "isValid (validateEventRequest (body (post_event (js ''k1'') (js ''user.created'') wide_payload_text)))"
    using user_created_ok wide_payload_length
    by (simp add: validate_valid_iff post_event_def event_body_def)
  have k: "x_idempotency_key (post_event (js ''k1'') (js ''user.created'') wide_payload_text) = Some (js ''k1'')"
    by (simp add: post_event_def)
  from processEvent_store_new_key [OF k v empty_no_key, of 5 1]
  have "status (fst (processEvent_store (post_event (js ''k1'') (js ''user.created'') wide_payload_text) 5 1 empty_system)) = 202"
    by auto
  then have "status (fst (processEvent (post_event (js ''k1'') (js ''user.created'') wide_payload_text)
                     5 1 empty_system)) = 202"
    using processEvent_check_new_key [OF k request_keys(3) v empty_no_key]
    by (simp add: processEvent_def)
  then show ?thesis
    using wide_payload_bytes v by (simp add: post_event_def)
qed

text \<open>
  What the code does decide on: with a valid key and event type, an object payload is
  accepted exactly when its text has at most 1048576 code units.
\<close>

lemma payload_limit_in_code_units:
  assumes "x_idempotency_key req = Some k" "k \<noteq> []" "body req = Some b"
    and "b_eventType b = String t" "trim t \<noteq> []" "eventTypeRegex_test t"
    and "b_payload b = Object p"
  shows "status (fst (processEvent req now ms s)) = (if length p \<le> 1024 * 1024 then 202 else 400)"
    and "length p > 1024 * 1024 \<Longrightarrow>
         json_field (fst (processEvent req now ms s)) ''code'' = Some (JLit ''VALIDATION_ERROR'')"
proof -
  have t: "t \<noteq> []" using assms(6) by (simp add: eventTypeRegex_test_def)
  show "length p > 1024 * 1024 \<Longrightarrow>
         json_field (fst (processEvent req now ms s)) ''code'' = Some (JLit ''VALIDATION_ERROR'')"
    using assms t
    by (simp add: processEvent_def processEvent_check_def validateEventRequest_def invalid_def
        json_field_def)
  show "status (fst (processEvent req now ms s)) = (if length p \<le> 1024 * 1024 then 202 else 400)"
  proof (cases "length p \<le> 1024 * 1024")
    case False
    then show ?thesis
      using assms t
      by (simp add: processEvent_def processEvent_check_def validateEventRequest_def invalid_def)
  next
    case True
    then have v: "isValid (validateEventRequest (body req))"
      using assms t by (simp add: validate_valid_iff)
    show ?thesis
    proof (cases "event_findUnique_by_key k s")
      case None
      from processEvent_store_new_key [OF assms(1) v None, of now ms]
      have "status (fst (processEvent_store req now ms s)) = 202" by auto
      then show ?thesis
        using True processEvent_check_new_key [OF assms(1,2) v None]
        by (simp add: processEvent_def)
    next
      case (Some e)
      show ?thesis
        using True processEvent_known_key [OF assms(1,2) v Some, of now ms] by simp
    qed
  qed
qed

section \<open>Admin: subscriptions and the manual retry\<close>

subsection \<open>Uniqueness of active subscriptions\<close>

lemma sink_valid: "isValidWebhookUrl example_runtime (String sink)"
  by (simp add: isValidWebhookUrl_def example_runtime_def sink_def)

lemma sink_nonempty: "sink \<noteq> []"
  by (simp add: sink_def)

lemma two_active_run_rows:
  "status (fst two_active_run) = 200
   \<and> map (\<lambda>x. (s_id x, s_event_type x, s_target_url x, s_is_active x))
        (subscriptions (snd two_active_run))
     = [(1, js ''user.created'', sink, True), (2, js ''user.created'', sink, True)]"
  using sink_valid sink_nonempty
  by (simp add: two_active_run_def createSubscription_def updateSubscription_def
      subscription_body_def subscription_findFirst_active_def subscription_create_def
      subscription_update_def update_data_valid_def apply_update_def
      updateSubscription_respond_def subscription_findUnique_def
      empty_system_def Let_def)

lemma updateSubscription_respond_status:
  "status (updateSubscription_respond r) \<in> {200, 404, 500}"
  by (cases r) (simp_all add: updateSubscription_respond_def internal_error_def)

lemma updateSubscription_never_409:
  "status (fst (updateSubscription rt i b now s)) \<in> {200, 400, 404, 500}"
proof -
  have "\<exists>r. status (fst (updateSubscription rt i b now s)) = 400
          \<or> fst (updateSubscription rt i b now s) = updateSubscription_respond r"
    by (auto simp: updateSubscription_def Let_def split: option.splits sum.splits)
  then show ?thesis
    using updateSubscription_respond_status by fastforce
qed

lemma createSubscription_duplicate:
  assumes "b_eventType b = String et" "et \<noteq> []" "b_targetUrl b = String url" "url \<noteq> []"
    and "isValidWebhookUrl rt (String url)"
    and "\<exists>x \<in> set (subscriptions s). s_event_type x = et \<and> s_target_url x = url \<and> s_is_active x"
  shows "status (fst (createSubscription rt b now rnd s)) = 409"
    and "json_field (fst (createSubscription rt b now rnd s)) ''code'' = Some (JLit ''DUPLICATE_SUBSCRIPTION'')"
    and "snd (createSubscription rt b now rnd s) = s"
proof -
  from assms(6) have "find (\<lambda>x. s_event_type x = et \<and> s_target_url x = url \<and> s_is_active x = True)
      (subscriptions s) \<noteq> None"
    by (auto simp: find_None_iff)
  then obtain x where "subscription_findFirst_active et url s = Some x"
    by (auto simp: subscription_findFirst_active_def)
  then show "status (fst (createSubscription rt b now rnd s)) = 409"
    and "json_field (fst (createSubscription rt b now rnd s)) ''code'' = Some (JLit ''DUPLICATE_SUBSCRIPTION'')"
    and "snd (createSubscription rt b now rnd s) = s"
    using assms(1-5) by (simp_all add: createSubscription_def json_field_def)
qed

lemma createSubscription_keeps_unique_active:
  assumes "unique_active s"
  shows "unique_active (snd (createSubscription rt b now rnd s))"
proof -
  have "\<And>et url. subscription_findFirst_active et url s = None \<Longrightarrow>
      (et, url) \<notin> set (map (\<lambda>x. (s_event_type x, s_target_url x)) (filter s_is_active (subscriptions s)))"
    by (auto simp: subscription_findFirst_active_def find_None_iff)
  then show ?thesis
    using assms
    by (auto simp: createSubscription_def subscription_create_def unique_active_def Let_def
        split: js_value.splits option.splits)
qed

lemma two_active_run_not_unique: "\<not> unique_active (snd two_active_run)"
  using sink_valid sink_nonempty
  by (simp add: two_active_run_def createSubscription_def updateSubscription_def
      subscription_body_def subscription_findFirst_active_def subscription_create_def
      subscription_update_def update_data_valid_def apply_update_def
      updateSubscription_respond_def subscription_findUnique_def
      empty_system_def Let_def unique_active_def)

text \<open>
  Claim C5 holds of \<open>createSubscription\<close> (the two lemmas above: a second active
  subscription of a pair is refused with 409 \<^verbatim>\<open>DUPLICATE_SUBSCRIPTION\<close>, and the invariant
  is kept) and fails of \<open>updateSubscription\<close>, which makes no such check and never
  answers 409. After the four requests of \<open>two_active_run\<close> the last update is answered
  200 and subscriptions 1 and 2 are both active for the same event type and target URL.
\<close>

theorem update_makes_second_active:
  "status (fst two_active_run) = 200
   \<and> map (\<lambda>x. (s_id x, s_event_type x, s_target_url x, s_is_active x))
        (subscriptions (snd two_active_run))
     = [(1, js ''user.created'', sink, True), (2, js ''user.created'', sink, True)]
   \<and> \<not> unique_active (snd two_active_run)"
  using two_active_run_rows two_active_run_not_unique by simp

subsection \<open>New subscriptions are active\<close>

text \<open>
  Claim C10. Whatever the request body holds, \<open>createSubscription\<close> either answers 201
  and appends exactly one subscription, which is active and is reported as such, or
  changes nothing. So no create request produces an inactive subscription: one that is
  inactive afterwards was in the store before.
\<close>

theorem created_subscription_is_active:
  "let (r, s') = createSubscription rt b now rnd s in
     (if status r = 201
      then \<exists>sub. subscriptions s' = subscriptions s @ [sub] \<and> s_is_active sub = True
             \<and> json_field r ''subscription'' = Some (JObj
                  [(''id'', JNum (s_id sub)),
                   (''eventType'', JStr (s_event_type sub)),
                   (''targetUrl'', JStr (s_target_url sub)),
                   (''isActive'', JBool True),
                   (''createdAt'', JNum (s_created_at sub)),
                   (''secretKey'', JStr (s_secret_key sub))])
      else s' = s)
     \<and> (\<forall>x \<in> set (subscriptions s'). \<not> s_is_active x \<longrightarrow> x \<in> set (subscriptions s))"
  by (auto simp: createSubscription_def subscription_create_def internal_error_def json_field_def
      Let_def split: js_value.splits option.splits)

text \<open>The theorem at a create request whose body asks for \<^verbatim>\<open>isActive: false\<close>.\<close>

theorem created_subscription_is_active_witness:
  "let (r, s') = createSubscription example_runtime
        (subscription_body (String (js ''user.created'')) (String sink) (Boolean False)) 10
        (replicate 32 0x5A)
        empty_system
   in status r = 201 \<and> map s_is_active (subscriptions s') = [True]
      \<and> subscriptions empty_system = []"
proof -
  have "status (fst (createSubscription example_runtime
        (subscription_body (String (js ''user.created'')) (String sink) (Boolean False)) 10
        (replicate 32 0x5A)
        empty_system)) = 201"
    using sink_valid sink_nonempty
    by (simp add: createSubscription_def subscription_body_def subscription_findFirst_active_def
        subscription_create_def empty_system_def Let_def)
  then show ?thesis
    using created_subscription_is_active [of example_runtime
        "subscription_body (String (js ''user.created'')) (String sink) (Boolean False)" 10
        "replicate 32 0x5A"
        empty_system]
    by (auto simp: empty_system_def split: prod.splits)
qed

subsection \<open>The manual retry\<close>

text \<open>
  Claim C7. For a delivery log that exists, with its subscription: \<open>retryFailedDelivery\<close>
  answers 400 \<^verbatim>\<open>INVALID_RETRY\<close> when the log's status is success; otherwise 400
  \<^verbatim>\<open>INACTIVE_SUBSCRIPTION\<close> when the subscription is inactive; otherwise it appends one
  fresh delivery job for the log's event and subscription to the queue, with no attempt
  made yet, and answers 200. In every case the delivery logs, the events and the
  subscriptions are left as they were. (When the queue refuses the job the answer is
  500 and nothing changes.)
\<close>

theorem manual_retry:
  assumes l: "deliveryLog_findUnique i s = Some deliveryLog"
    and sub: "subscription_findUnique (l_subscription_id deliveryLog) s = Some subscription"
  shows "let (r, s') = retryFailedDelivery rt (Some i) s in
     if l_status deliveryLog = Success then
       status r = 400 \<and> json_field r ''code'' = Some (JLit ''INVALID_RETRY'') \<and> s' = s
     else if \<not> s_is_active subscription then
       status r = 400 \<and> json_field r ''code'' = Some (JLit ''INACTIVE_SUBSCRIPTION'') \<and> s' = s
     else if queue_up s then
       status r = 200
       \<and> queue s' = queue s @
            [\<lparr>job_name = ''deliver-webhook'',
              job_data = DeliverWebhook (l_event_id deliveryLog) (l_subscription_id deliveryLog),
              opt_attempts = max_retry_attempts rt, opt_backoff_delay = Some 2000,
              attemptsMade = 0\<rparr>]
       \<and> delivery_logs s' = delivery_logs s \<and> events s' = events s
       \<and> subscriptions s' = subscriptions s
     else status r = 500 \<and> s' = s"
  using l sub
  by (simp add: retryFailedDelivery_def queueWebhookDelivery_def queue_add_def json_field_def
      internal_error_def)

lemma retry_system_lookup:
  "deliveryLog_findUnique 3 (retry_system st a) = Some (hd (delivery_logs (retry_system st a)))"
  "subscription_findUnique (l_subscription_id (hd (delivery_logs (retry_system st a))))
     (retry_system st a) = Some (hd (subscriptions (retry_system st a)))"
  by (simp_all add: deliveryLog_findUnique_def subscription_findUnique_def retry_system_def)

text \<open>
  The theorem at log 3 of \<open>retry_system\<close>: a failed log of an active subscription, a
  successful log, and a failed log of an inactive subscription.
\<close>

theorem manual_retry_witness:
  "(let (r, s') = retryFailedDelivery example_runtime (Some 3) (retry_system Failed True) in
      status r = 200
      \<and> queue s' = [\<lparr>job_name = ''deliver-webhook'', job_data = DeliverWebhook 1 2,
                      opt_attempts = 3, opt_backoff_delay = Some 2000, attemptsMade = 0\<rparr>]
      \<and> delivery_logs s' = delivery_logs (retry_system Failed True))
   \<and> (let (r, s') = retryFailedDelivery example_runtime (Some 3) (retry_system Success True) in
      status r = 400 \<and> json_field r ''code'' = Some (JLit ''INVALID_RETRY'')
      \<and> s' = retry_system Success True)
   \<and> (let (r, s') = retryFailedDelivery example_runtime (Some 3) (retry_system Failed False) in
      status r = 400 \<and> json_field r ''code'' = Some (JLit ''INACTIVE_SUBSCRIPTION'')
      \<and> s' = retry_system Failed False)"
  using manual_retry [OF retry_system_lookup [of Failed True], of example_runtime]
    manual_retry [OF retry_system_lookup [of Success True], of example_runtime]
    manual_retry [OF retry_system_lookup [of Failed False], of example_runtime]
  by (simp add: retry_system_def max_retry_attempts_def example_runtime_def split: prod.splits)

section \<open>The delivery worker\<close>

subsection \<open>Auxiliary facts\<close>

lemma show_nat_digits: "show_nat 2 = ''2''" "show_nat 9 = ''9''" "show_nat 500 = ''500''"
  by code_simp+

lemma delivery_lookup:
  "event_findUnique_by_id 1 (delivery_system a) = Some event_1"
  "subscription_findUnique 2 (delivery_system a) = Some (subscription_2 a)"
  "subscription_findUnique 9 (delivery_system a) = None"
  by (simp_all add: event_findUnique_by_id_def subscription_findUnique_def delivery_system_def
      event_1_def subscription_2_def)

lemma processWebhookDelivery_dropped:
  assumes "subscription_findUnique sid s = None
           \<or> (\<exists>sub. subscription_findUnique sid s = Some sub \<and> \<not> s_is_active sub)"
  shows "\<exists>msg. processWebhookDelivery rt net now fin eid sid s = (Inl (Error msg), s)"
  using assms
  by (auto simp: processWebhookDelivery_def split: option.splits)

lemma queueAll_effect:
  "queueAll rt eid subs s = Inr s' \<Longrightarrow>
     events s' = events s \<and> subscriptions s' = subscriptions s
     \<and> delivery_logs s' = delivery_logs s \<and> next_id s' = next_id s"
  by (induction subs arbitrary: s)
     (auto simp: queueIndividualDelivery_def queue_add_def split: sum.splits if_splits)

lemma processWebhookDeliveries_store:
  "events (snd (processWebhookDeliveries rt eid et s)) = events s"
  "subscriptions (snd (processWebhookDeliveries rt eid et s)) = subscriptions s"
  "delivery_logs (snd (processWebhookDeliveries rt eid et s)) = delivery_logs s"
  "next_id (snd (processWebhookDeliveries rt eid et s)) = next_id s"
  using queueAll_effect
  by (auto simp: processWebhookDeliveries_def Let_def split: sum.splits)

lemma processWebhookDelivery_subscriptions:
  "subscriptions (snd (processWebhookDelivery rt net now fin eid sid s)) = subscriptions s"
  by (auto simp: processWebhookDelivery_def deliveryLog_create_def deliveryLog_update_def Let_def
      split: option.splits sum.splits prod.splits)

lemma processJob_subscriptions:
  "subscriptions (snd (processJob self rt net now fin j s)) = subscriptions s"
  by (simp add: processJob_def processWebhookDeliveries_store processWebhookDelivery_subscriptions
      split: job_data.splits)

lemma map_other_ids:
  "\<forall>l \<in> set xs. l_id l \<noteq> n \<Longrightarrow> map (\<lambda>l. if l_id l = n then f l else l) xs = xs"
  by (induction xs) auto

lemma ids_fresh_next: "ids_fresh s \<Longrightarrow> \<forall>l \<in> set (delivery_logs s). l_id l \<noteq> next_id s"
  by (auto simp: ids_fresh_def list_all_iff)

lemma processWebhookDelivery_attempt:
  assumes ev: "event_findUnique_by_id eid s = Some ev"
    and sub: "subscription_findUnique sid s = Some sub" "s_is_active sub"
    and fresh: "\<forall>l \<in> set (delivery_logs s). l_id l \<noteq> next_id s"
  shows "processWebhookDelivery rt net now fin eid sid s =
     (case axios_post net (s_target_url sub) (webhook_payload rt ev) (webhook_headers rt ev sub now) of
        Inr resp \<Rightarrow>
          (Inr (Delivered (resp_status resp) (next_id s)),
           s\<lparr>delivery_logs := delivery_logs s @
                [\<lparr>l_id = next_id s, l_event_id = eid, l_subscription_id = sid,
                  l_status = Success, l_attempt_count = 1, l_attempted_at = fin,
                  l_response_status_code = Some (resp_status resp),
                  l_response_body = Some (take 1000 (data_json resp)),
                  l_error_message = None\<rparr>],
              next_id := Suc (next_id s)\<rparr>)
      | Inl err \<Rightarrow>
          (Inl err,
           s\<lparr>delivery_logs := delivery_logs s @
                [\<lparr>l_id = next_id s, l_event_id = eid, l_subscription_id = sid,
                  l_status = Failed, l_attempt_count = 1, l_attempted_at = fin,
                  l_response_status_code =
                    Some (case response err of Some r \<Rightarrow> resp_status r | None \<Rightarrow> 0),
                  l_response_body =
                    (case response err of
                       Some r \<Rightarrow> if data_truthy r then Some (take 1000 (data_json r)) else None
                     | None \<Rightarrow> None),
                  l_error_message = Some (if message err = [] then ''Unknown error'' else message err)\<rparr>],
              next_id := Suc (next_id s)\<rparr>))"
  using ev sub map_other_ids [OF fresh]
  by (simp add: processWebhookDelivery_def deliveryLog_create_def deliveryLog_update_def Let_def
      split: sum.splits)

subsection \<open>Transport errors\<close>

text \<open>
  Claim C4, as the code has it. When no HTTP response comes, the attempt appends one
  delivery log, finished as failed with \<open>response_status_code = 0\<close> (the fallback of
  \<^verbatim>\<open>deliveryError.response?.status || 0\<close>), \<open>response_body = null\<close> and the error's
  text as \<open>error_message\<close> (\<^verbatim>\<open>Unknown error\<close> when the text is empty), and the error
  is thrown to the queue.
\<close>

theorem transport_error_log:
  assumes ev: "event_findUnique_by_id eid s = Some ev"
    and sub: "subscription_findUnique sid s = Some sub" "s_is_active sub"
    and fresh: "\<forall>l \<in> set (delivery_logs s). l_id l \<noteq> next_id s"
    and net: "net (s_target_url sub) (webhook_payload rt ev) (webhook_headers rt ev sub now)
                = NoResponse msg"
  shows "let (r, s') = processWebhookDelivery rt net now fin eid sid s in
     r = Inl (AxiosError msg None)
     \<and> (\<exists>row. delivery_logs s' = delivery_logs s @ [row]
           \<and> l_event_id row = eid \<and> l_subscription_id row = sid
           \<and> l_status row = Failed
           \<and> l_response_status_code row = Some 0
           \<and> l_response_body row = None
           \<and> l_error_message row = Some (if msg = [] then ''Unknown error'' else msg))"
  using processWebhookDelivery_attempt [OF ev sub fresh, of rt net now fin] net
  by (simp add: axios_post_def)

lemma delivery_system_fresh: "\<forall>l \<in> set (delivery_logs (delivery_system a)). l_id l \<noteq> next_id (delivery_system a)"
  by (simp add: delivery_system_def)

lemma subscription_2_active: "s_is_active (subscription_2 True)"
  by (simp add: subscription_2_def)

text \<open>
  A delivery to a sink that cannot be reached: the log's \<open>response_status_code\<close> is 0,
  not null.
\<close>

theorem transport_error_status_code_0:
  "map (\<lambda>l. (l_status l, l_response_status_code l, l_response_body l, l_error_message l))
     (delivery_logs (snd (processWebhookDelivery example_runtime sink_down 100 101 1 2
                            (delivery_system True))))
   = [(Failed, Some 0, None, Some ''connect ECONNREFUSED 127.0.0.1:80'')]
   \<and> l_response_status_code (last (delivery_logs (snd (processWebhookDelivery example_runtime
        sink_down 100 101 1 2 (delivery_system True))))) \<noteq> None"
  using processWebhookDelivery_attempt [OF delivery_lookup(1,2) subscription_2_active
      delivery_system_fresh, of example_runtime sink_down 100 101]
  by (simp add: axios_post_def sink_down_def delivery_system_def)

text \<open>The theorem at the delivery of event 1 to subscription 2 with the sink down.\<close>

theorem transport_error_log_witness:
  "let (r, s') = processWebhookDelivery example_runtime sink_down 100 101 1 2 (delivery_system True) in
     r = Inl (AxiosError ''connect ECONNREFUSED 127.0.0.1:80'' None)
     \<and> length (delivery_logs s') = 1
     \<and> l_status (hd (delivery_logs s')) = Failed
     \<and> l_response_status_code (hd (delivery_logs s')) = Some 0
     \<and> l_response_body (hd (delivery_logs s')) = None
     \<and> l_error_message (hd (delivery_logs s')) = Some ''connect ECONNREFUSED 127.0.0.1:80''"
proof -
  have n: "sink_down (s_target_url (subscription_2 True)) (webhook_payload example_runtime event_1)
      (webhook_headers example_runtime event_1 (subscription_2 True) 100)
      = NoResponse ''connect ECONNREFUSED 127.0.0.1:80''"
    by (simp add: sink_down_def)
  show ?thesis
    using transport_error_log [where net = sink_down and rt = example_runtime and now = 100
        and fin = 101, OF delivery_lookup(1,2) subscription_2_active delivery_system_fresh n]
    by (auto simp: delivery_system_def split: prod.splits)
qed

subsection \<open>The attempt count\<close>

text \<open>
  \<open>processWebhookDelivery\<close> is given the job's data only and \<open>processJob\<close> never reads
  the attempt number of the job: every log that is created has \<open>attempt_count = 1\<close>.
\<close>

lemma attempt_number_unused:
  "processJob self rt net now fin (j\<lparr>attemptsMade := n\<rparr>) s = processJob self rt net now fin j s"
  by (simp add: processJob_def)

lemma new_log_attempt_count:
  assumes "event_findUnique_by_id eid s = Some ev"
    and "subscription_findUnique sid s = Some sub" "s_is_active sub"
    and "\<forall>l \<in> set (delivery_logs s). l_id l \<noteq> next_id s"
  shows "\<exists>row. delivery_logs (snd (processWebhookDelivery rt net now fin eid sid s))
                 = delivery_logs s @ [row] \<and> l_attempt_count row = 1"
  using processWebhookDelivery_attempt [OF assms, of rt net now fin]
  by (auto split: sum.splits)

text \<open>
  Under a receiver that is not the class, \<open>processJob\<close> throws before any handler runs
  and changes nothing.
\<close>

lemma processJob_without_class:
  assumes "self \<noteq> WebhookWorker_class"
  shows "\<exists>msg. processJob self rt net now fin j s = (Inl (Error msg), s)"
  using assms
  by (cases "job_data j") (simp_all add: processJob_def method_missing_def split: receiver.splits)

text \<open>
  Claim C2 asks for \<open>attempt_count\<close> 1, 2 and 3 on the three rows of a delivery retried
  to exhaustion. \<open>processWebhookDelivery\<close>, called for each of the three attempts against
  a sink that always answers 500, leaves three failed rows with status code 500, each
  with \<open>attempt_count = 1\<close>. Called by the queue with a receiver of the queue's own,
  \<open>processJob\<close> throws at the second attempt, as at any other, and no row is written at
  all. In neither case do the rows carry 1, 2 and 3.
\<close>

theorem retries_all_count_1:
  "map (\<lambda>l. (l_attempt_count l, l_status l, l_response_status_code l))
     (delivery_logs three_attempts)
   = [(1, Failed, Some 500), (1, Failed, Some 500), (1, Failed, Some 500)]
   \<and> (\<exists>msg. processJob Worker_instance example_runtime sink_500 2100 2101 (delivery_job 2 1)
               (delivery_system True) = (Inl (Error msg), delivery_system True))
   \<and> (\<exists>msg. processJob No_receiver example_runtime sink_500 2100 2101 (delivery_job 2 1)
               (delivery_system True) = (Inl (Error msg), delivery_system True))
   \<and> delivery_logs (delivery_system True) = []"
proof -
  have "map (\<lambda>l. (l_attempt_count l, l_status l, l_response_status_code l))
     (delivery_logs three_attempts)
   = [(1, Failed, Some 500), (1, Failed, Some 500), (1, Failed, Some 500)]"
    by (simp add: three_attempts_def processWebhookDelivery_def delivery_system_def
        event_findUnique_by_id_def subscription_findUnique_def event_1_def subscription_2_def
        deliveryLog_create_def deliveryLog_update_def axios_post_def sink_500_def Let_def)
  moreover have "\<exists>msg. processJob Worker_instance example_runtime sink_500 2100 2101
      (delivery_job 2 1) (delivery_system True) = (Inl (Error msg), delivery_system True)"
    by (rule processJob_without_class) simp
  moreover have "\<exists>msg. processJob No_receiver example_runtime sink_500 2100 2101
      (delivery_job 2 1) (delivery_system True) = (Inl (Error msg), delivery_system True)"
    by (rule processJob_without_class) simp
  moreover have "delivery_logs (delivery_system True) = []"
    by (simp add: delivery_system_def)
  ultimately show ?thesis
    by (intro conjI)
qed

subsection \<open>Deliveries to a missing or inactive subscription\<close>

lemma processEvent_store_frame:
  "subscriptions (snd (processEvent_store req now ms s)) = subscriptions s"
  "delivery_logs (snd (processEvent_store req now ms s)) = delivery_logs s"
  "next_id s \<le> next_id (snd (processEvent_store req now ms s))"
  by (auto simp: processEvent_store_def event_create_def queueWebhookDeliveries_def queue_add_def
      Let_def split: option.splits sum.splits js_value.splits prod.splits)

lemma processEvent_frame:
  "subscriptions (snd (processEvent req now ms s)) = subscriptions s"
  "delivery_logs (snd (processEvent req now ms s)) = delivery_logs s"
  "next_id s \<le> next_id (snd (processEvent req now ms s))"
  using processEvent_store_frame [where req = req and now = now and ms = ms and s = s]
  by (auto simp: processEvent_def split: option.splits)

lemma processEvent_ids_fresh: "ids_fresh s \<Longrightarrow> ids_fresh (snd (processEvent req now ms s))"
  using processEvent_frame [where req = req and now = now and ms = ms and s = s]
  by (auto simp: ids_fresh_def list_all_iff)

lemma processJob_logs:
  assumes "ids_fresh s"
  shows "(delivery_logs (snd (processJob self rt net now fin j s)) = delivery_logs s
          \<and> next_id (snd (processJob self rt net now fin j s)) = next_id s)
     \<or> (\<exists>row sub. delivery_logs (snd (processJob self rt net now fin j s)) = delivery_logs s @ [row]
           \<and> l_id row = next_id s
           \<and> next_id (snd (processJob self rt net now fin j s)) = Suc (next_id s)
           \<and> subscription_findUnique (l_subscription_id row) s = Some sub \<and> s_is_active sub)"
proof (cases "self = WebhookWorker_class")
  case False
  then obtain msg where "processJob self rt net now fin j s = (Inl (Error msg), s)"
    using processJob_without_class by blast
  then show ?thesis by simp
next
  case True
  show ?thesis
  proof (cases "job_data j")
    case (ProcessWebhookDeliveries eid et)
    then show ?thesis using True by (simp add: processJob_def processWebhookDeliveries_store)
  next
    case (UnknownJob ty)
    then show ?thesis by (simp add: processJob_def)
  next
    case (DeliverWebhook eid sid)
    show ?thesis
    proof (cases "\<exists>ev sub. event_findUnique_by_id eid s = Some ev
                    \<and> subscription_findUnique sid s = Some sub \<and> s_is_active sub")
      case yes: True
      then obtain ev sub where f: "event_findUnique_by_id eid s = Some ev"
          "subscription_findUnique sid s = Some sub" "s_is_active sub"
        by blast
      show ?thesis
        using processWebhookDelivery_attempt [OF f ids_fresh_next [OF assms], of rt net now fin]
          f(2,3) DeliverWebhook True
        by (auto simp: processJob_def split: sum.splits)
    next
      case no: False
      then have "snd (processWebhookDelivery rt net now fin eid sid s) = s"
        by (auto simp: processWebhookDelivery_def split: option.splits)
      then show ?thesis using DeliverWebhook True by (simp add: processJob_def)
    qed
  qed
qed

lemma processJob_ids_fresh:
  assumes "ids_fresh s"
  shows "ids_fresh (snd (processJob self rt net now fin j s))"
  using processJob_logs [OF assms, of self rt net now fin j] assms
  by (auto simp: ids_fresh_def list_all_iff less_Suc_eq)

lemma processJob_logs_of:
  assumes gone: "subscription_findUnique sid s = None
           \<or> (\<exists>sub. subscription_findUnique sid s = Some sub \<and> \<not> s_is_active sub)"
    and fresh: "ids_fresh s"
  shows "logs_of sid (snd (processJob self rt net now fin j s)) = logs_of sid s"
  using processJob_logs [OF fresh, of self rt net now fin j] gone
  by (auto simp: logs_of_def)

lemma findUnique_same_subscriptions:
  "subscriptions s' = subscriptions s \<Longrightarrow> subscription_findUnique sid s' = subscription_findUnique sid s"
  by (simp add: subscription_findUnique_def)

lemma worker_run_logs_of:
  assumes "subscription_findUnique sid s = None
           \<or> (\<exists>sub. subscription_findUnique sid s = Some sub \<and> \<not> s_is_active sub)"
    and "ids_fresh s"
  shows "logs_of sid (worker_run self rt steps s) = logs_of sid s"
  using assms
proof (induction steps arbitrary: s)
  case Nil
  show ?case by simp
next
  case (Cons step steps)
  obtain net now fin j where step: "step = (net, now, fin, j)"
    by (cases step) auto
  let ?s1 = "snd (processJob self rt net now fin j s)"
  have same: "subscription_findUnique sid ?s1 = subscription_findUnique sid s"
    by (rule findUnique_same_subscriptions) (rule processJob_subscriptions)
  have "logs_of sid (worker_run self rt steps ?s1) = logs_of sid ?s1"
    using Cons.IH [of ?s1] Cons.prems same processJob_ids_fresh by simp
  then show ?case
    using step processJob_logs_of [OF Cons.prems, of self rt net now fin j] by simp
qed

lemma delivery_system_ids_fresh: "ids_fresh (delivery_system a)"
  by (simp add: ids_fresh_def delivery_system_def)

lemma subscription_2_gone:
  "subscription_findUnique 2 (delivery_system False) = None
   \<or> (\<exists>sub. subscription_findUnique 2 (delivery_system False) = Some sub \<and> \<not> s_is_active sub)"
  using delivery_lookup(2) [of False] by (simp add: subscription_2_def)

text \<open>
  A delivery to an inactive subscription, and to one that does not exist, does not
  complete: \<open>processWebhookDelivery\<close> throws. So does \<open>processJob\<close> when the queue calls
  it with a receiver of the queue's own, before the handler is reached.
\<close>

theorem inactive_subscription_fails_job:
  "fst (processWebhookDelivery example_runtime sink_500 100 101 1 2 (delivery_system False))
     = Inl (Error ''Subscription is inactive: 2'')
   \<and> fst (processWebhookDelivery example_runtime sink_500 100 101 1 9 (delivery_system True))
     = Inl (Error ''Subscription not found: 9'')
   \<and> (\<exists>msg. fst (processJob Worker_instance example_runtime sink_500 100 101 (delivery_job 2 0)
                     (delivery_system False)) = Inl (Error msg))
   \<and> (\<exists>msg. fst (processJob No_receiver example_runtime sink_500 100 101 (delivery_job 2 0)
                     (delivery_system False)) = Inl (Error msg))"
proof -
  have "fst (processWebhookDelivery example_runtime sink_500 100 101 1 2 (delivery_system False))
     = Inl (Error ''Subscription is inactive: 2'')"
    using delivery_lookup show_nat_digits
    by (simp add: processWebhookDelivery_def subscription_2_def)
  moreover have "fst (processWebhookDelivery example_runtime sink_500 100 101 1 9 (delivery_system True))
     = Inl (Error ''Subscription not found: 9'')"
    using delivery_lookup show_nat_digits
    by (simp add: processWebhookDelivery_def)
  moreover have "\<exists>msg. fst (processJob Worker_instance example_runtime sink_500 100 101
      (delivery_job 2 0) (delivery_system False)) = Inl (Error msg)"
    using processJob_without_class [of Worker_instance example_runtime sink_500 100 101
        "delivery_job 2 0" "delivery_system False"]
    by auto
  moreover have "\<exists>msg. fst (processJob No_receiver example_runtime sink_500 100 101
      (delivery_job 2 0) (delivery_system False)) = Inl (Error msg)"
    using processJob_without_class [of No_receiver example_runtime sink_500 100 101
        "delivery_job 2 0" "delivery_system False"]
    by auto
  ultimately show ?thesis
    by (intro conjI)
qed

text \<open>
  Claim C1, as the code has it. For a subscription that is missing or inactive,
  \<open>processWebhookDelivery\<close> creates no delivery log and changes nothing, and it does not
  complete the job: it throws \<^verbatim>\<open>Event not found: <id>\<close> when the event is missing as well,
  and otherwise \<^verbatim>\<open>Subscription not found: <id>\<close> or \<^verbatim>\<open>Subscription is inactive: <id>\<close>.
  After an event is posted, whatever jobs the worker then runs, in any order, with any
  network and under any receiver, the delivery logs of that subscription are the ones
  that were there before.
\<close>

theorem inactive_subscription_no_log:
  assumes gone: "subscription_findUnique sid s = None
           \<or> (\<exists>sub. subscription_findUnique sid s = Some sub \<and> \<not> s_is_active sub)"
    and fresh: "ids_fresh s"
  shows "processWebhookDelivery rt net now fin eid sid s =
       (Inl (Error (if event_findUnique_by_id eid s = None
                    then ''Event not found: '' @ show_nat eid
                    else if subscription_findUnique sid s = None
                    then ''Subscription not found: '' @ show_nat sid
                    else ''Subscription is inactive: '' @ show_nat sid)), s)
     \<and> logs_of sid (worker_run self rt steps (snd (processEvent req t ms s))) = logs_of sid s"
proof -
  let ?s1 = "snd (processEvent req t ms s)"
  have same: "subscription_findUnique sid ?s1 = subscription_findUnique sid s"
    by (rule findUnique_same_subscriptions) (rule processEvent_frame)
  have "logs_of sid (worker_run self rt steps ?s1) = logs_of sid ?s1"
    using worker_run_logs_of [of sid ?s1 self rt steps] gone same
      processEvent_ids_fresh [OF fresh]
    by simp
  moreover have "logs_of sid ?s1 = logs_of sid s"
    by (simp add: logs_of_def processEvent_frame)
  moreover have "processWebhookDelivery rt net now fin eid sid s =
       (Inl (Error (if event_findUnique_by_id eid s = None
                    then ''Event not found: '' @ show_nat eid
                    else if subscription_findUnique sid s = None
                    then ''Subscription not found: '' @ show_nat sid
                    else ''Subscription is inactive: '' @ show_nat sid)), s)"
    using gone by (auto simp: processWebhookDelivery_def split: option.splits)
  ultimately show ?thesis
    by simp
qed

text \<open>
  The theorem at the inactive subscription 2: a delivery job for it, and the fan-out
  job and a delivery job run after an event of its type is posted under a new key, with
  the class as receiver and with the queue's worker object as receiver.
\<close>

theorem inactive_subscription_no_log_witness:
  "processWebhookDelivery example_runtime sink_500 100 101 1 2 (delivery_system False)
     = (Inl (Error ''Subscription is inactive: 2''), delivery_system False)
   \<and> logs_of 2 (worker_run WebhookWorker_class example_runtime
        [(sink_500, 100, 101,
          \<lparr>job_name = ''process-webhook-deliveries'',
            job_data = ProcessWebhookDeliveries 3 (js ''user.created''),
            opt_attempts = 1, opt_backoff_delay = None, attemptsMade = 0\<rparr>),
         (sink_500, 200, 201, delivery_job 2 0)]
        (snd (processEvent request_C 50 1 (delivery_system False)))) = []
   \<and> logs_of 2 (worker_run Worker_instance example_runtime
        [(sink_500, 100, 101,
          \<lparr>job_name = ''process-webhook-deliveries'',
            job_data = ProcessWebhookDeliveries 3 (js ''user.created''),
            opt_attempts = 1, opt_backoff_delay = None, attemptsMade = 0\<rparr>),
         (sink_500, 200, 201, delivery_job 2 0)]
        (snd (processEvent request_C 50 1 (delivery_system False)))) = []"
proof -
  have l: "logs_of 2 (delivery_system False) = []"
    by (simp add: logs_of_def delivery_system_def)
  have m: "(if event_findUnique_by_id 1 (delivery_system False) = None
            then ''Event not found: '' @ show_nat 1
            else if subscription_findUnique 2 (delivery_system False) = None
            then ''Subscription not found: '' @ show_nat 2
            else ''Subscription is inactive: '' @ show_nat 2) = ''Subscription is inactive: 2''"
    using delivery_lookup(1,2) [of False] show_nat_digits(1) by simp
  show ?thesis
    using inactive_subscription_no_log [OF subscription_2_gone delivery_system_ids_fresh,
        where self = WebhookWorker_class and rt = example_runtime and net = sink_500
          and now = 100 and fin = 101 and eid = 1 and req = request_C and t = 50 and ms = 1
          and steps = "[(sink_500, 100, 101,
          \<lparr>job_name = ''process-webhook-deliveries'',
            job_data = ProcessWebhookDeliveries 3 (js ''user.created''),
            opt_attempts = 1, opt_backoff_delay = None, attemptsMade = 0\<rparr>),
         (sink_500, 200, 201, delivery_job 2 0)]"]
      inactive_subscription_no_log [OF subscription_2_gone delivery_system_ids_fresh,
        where self = Worker_instance and rt = example_runtime and net = sink_500
          and now = 100 and fin = 101 and eid = 1 and req = request_C and t = 50 and ms = 1
          and steps = "[(sink_500, 100, 101,
          \<lparr>job_name = ''process-webhook-deliveries'',
            job_data = ProcessWebhookDeliveries 3 (js ''user.created''),
            opt_attempts = 1, opt_backoff_delay = None, attemptsMade = 0\<rparr>),
         (sink_500, 200, 201, delivery_job 2 0)]"]
    unfolding l m by simp
qed

subsection \<open>The signature header\<close>

lemma hex_digits:
  "map hex_digit [0, 1, 2, 3, 4, 5, 6, 7, 8, 9, 10, 11, 12, 13, 14, 15] = ''0123456789abcdef''"
  by (simp add: hex_digit_def char_of_def bit_Suc_0_iff)

lemma upt_16: "[0..<16] = [0, 1, 2, 3, 4, 5, 6, 7, 8, 9, 10, 11, 12, 13, 14, 15::nat]"
  by (simp add: upt_rec)

lemma hex_digit_lower: "d < 16 \<Longrightarrow> hex_digit d \<in> set ''0123456789abcdef''"
proof -
  assume "d < 16"
  then have "hex_digit d \<in> set (map hex_digit [0..<16])"
    by simp
  then show ?thesis
    unfolding upt_16 hex_digits .
qed

lemma hex_lower: "c \<in> set (hex bs) \<Longrightarrow> c \<in> set ''0123456789abcdef''"
proof -
  assume "c \<in> set (hex bs)"
  then obtain b where "c \<in> set (hex_byte b)"
    by (auto simp: hex_def)
  then have c: "c = hex_digit (unat b div 16) \<or> c = hex_digit (unat b mod 16)"
    by (simp add: hex_byte_def)
  have "unat b < 256"
    using unsigned_less [of b, where 'a = nat] by simp
  then have "unat b div 16 < 16" "unat b mod 16 < 16"
    by simp_all
  then show ?thesis
    using c hex_digit_lower by blast
qed

lemma hex_length: "length (hex bs) = 2 * length bs"
  by (induction bs) (simp_all add: hex_def hex_byte_def)

lemma processWebhookDelivery_request:
  assumes "event_findUnique_by_id eid s = Some ev" "subscription_findUnique sid s = Some sub"
    and "net (s_target_url sub) (webhook_payload rt ev) (webhook_headers rt ev sub now)
         = net' (s_target_url sub) (webhook_payload rt ev) (webhook_headers rt ev sub now)"
  shows "processWebhookDelivery rt net now fin eid sid s
         = processWebhookDelivery rt net' now fin eid sid s"
  using assms by (simp add: processWebhookDelivery_def axios_post_def)

text \<open>
  Claim C8, as the code has it. The header that carries the signature is named
  \<^verbatim>\<open>X-AlgoHire-Signature\<close>; no header is named \<^verbatim>\<open>X-Signature\<close>. Its value is
  \<^verbatim>\<open>sha256=\<close> followed by the hex text of the HMAC-SHA256 digest of the payload under
  the secret, two digits a byte, all of them lowercase. A delivery asks the network for
  exactly one request: the subscription's target, the serialized envelope as body, and
  these headers computed from that body and the subscription's secret.
\<close>

theorem signature_header:
  assumes "event_findUnique_by_id eid s = Some ev" "subscription_findUnique sid s = Some sub"
    and "net (s_target_url sub) (webhook_payload rt ev)
           (generateWebhookHeaders rt (webhook_payload rt ev) (s_secret_key sub)
              (e_event_type ev) (e_id ev) now)
         = net' (s_target_url sub) (webhook_payload rt ev)
           (generateWebhookHeaders rt (webhook_payload rt ev) (s_secret_key sub)
              (e_event_type ev) (e_id ev) now)"
  shows "map_of (generateWebhookHeaders rt p secret et i now) ''X-AlgoHire-Signature''
           = Some (js ''sha256='' @ js (hex (hmac_sha256 rt secret p)))
     \<and> map_of (generateWebhookHeaders rt p secret et i now) ''X-Signature'' = None
     \<and> length (hex (hmac_sha256 rt secret p)) = 2 * length (hmac_sha256 rt secret p)
     \<and> set (hex (hmac_sha256 rt secret p)) \<subseteq> set ''0123456789abcdef''
     \<and> processWebhookDelivery rt net now fin eid sid s
         = processWebhookDelivery rt net' now fin eid sid s"
proof -
  have c1: "map_of (generateWebhookHeaders rt p secret et i now) ''X-AlgoHire-Signature''
           = Some (js ''sha256='' @ js (hex (hmac_sha256 rt secret p)))"
    by (simp add: generateWebhookHeaders_def generateWebhookSignature_def
        generateHmacSignature_def Let_def)
  have c2: "map_of (generateWebhookHeaders rt p secret et i now) ''X-Signature'' = None"
    by (simp add: generateWebhookHeaders_def Let_def)
  have c3: "length (hex (hmac_sha256 rt secret p)) = 2 * length (hmac_sha256 rt secret p)"
    by (rule hex_length)
  have c4: "set (hex (hmac_sha256 rt secret p)) \<subseteq> set ''0123456789abcdef''"
    by (rule subsetI) (rule hex_lower)
  have h: "webhook_headers rt ev sub now =
      generateWebhookHeaders rt (webhook_payload rt ev) (s_secret_key sub)
        (e_event_type ev) (e_id ev) now"
    by (simp add: webhook_headers_def)
  have c5: "processWebhookDelivery rt net now fin eid sid s
         = processWebhookDelivery rt net' now fin eid sid s"
    apply (rule processWebhookDelivery_request [OF assms(1,2)])
    apply (subst h)+
    apply (rule assms(3))
    done
  show ?thesis
    apply (intro conjI)
        apply (rule c1)
       apply (rule c2)
      apply (rule c3)
     apply (rule c4)
    apply (rule c5)
    done
qed

text \<open>The headers of a delivery: none of the six is named \<^verbatim>\<open>X-Signature\<close>.\<close>

theorem no_x_signature_header:
  "map_of (webhook_headers example_runtime event_1 (subscription_2 True) 100) ''X-Signature'' = None
   \<and> map fst (webhook_headers example_runtime event_1 (subscription_2 True) 100)
      = [''Content-Type'', ''X-AlgoHire-Signature'', ''X-AlgoHire-Timestamp'',
         ''X-AlgoHire-Event-Type'', ''X-AlgoHire-Event-ID'', ''User-Agent'']"
  by (simp add: webhook_headers_def generateWebhookHeaders_def Let_def)

text \<open>The theorem at the delivery of event 1 to subscription 2.\<close>

theorem signature_header_witness:
  "map_of (generateWebhookHeaders example_runtime (webhook_payload example_runtime event_1)
            (s_secret_key (subscription_2 True)) (e_event_type event_1) (e_id event_1) 100)
       ''X-AlgoHire-Signature''
     = Some (js ''sha256='' @ js (hex (hmac_sha256 example_runtime (s_secret_key (subscription_2 True))
                (webhook_payload example_runtime event_1))))
   \<and> map_of (generateWebhookHeaders example_runtime (webhook_payload example_runtime event_1)
            (s_secret_key (subscription_2 True)) (e_event_type event_1) (e_id event_1) 100)
       ''X-Signature'' = None
   \<and> length (hex (hmac_sha256 example_runtime (s_secret_key (subscription_2 True))
                (webhook_payload example_runtime event_1)))
     = 2 * length (hmac_sha256 example_runtime (s_secret_key (subscription_2 True))
                (webhook_payload example_runtime event_1))
   \<and> set (hex (hmac_sha256 example_runtime (s_secret_key (subscription_2 True))
                (webhook_payload example_runtime event_1))) \<subseteq> set ''0123456789abcdef''
   \<and> processWebhookDelivery example_runtime sink_500 100 101 1 2 (delivery_system True)
     = processWebhookDelivery example_runtime
         (\<lambda>url body hs. if url = js ''http://sink/ok'' then sink_500 url body hs
                         else sink_down url body hs)
         100 101 1 2 (delivery_system True)"
proof -
  have n: "sink_500 (s_target_url (subscription_2 True)) (webhook_payload example_runtime event_1)
           (generateWebhookHeaders example_runtime (webhook_payload example_runtime event_1)
              (s_secret_key (subscription_2 True)) (e_event_type event_1) (e_id event_1) 100)
         = (\<lambda>url body hs. if url = js ''http://sink/ok'' then sink_500 url body hs
                           else sink_down url body hs)
           (s_target_url (subscription_2 True)) (webhook_payload example_runtime event_1)
           (generateWebhookHeaders example_runtime (webhook_payload example_runtime event_1)
              (s_secret_key (subscription_2 True)) (e_event_type event_1) (e_id event_1) 100)"
    by (simp add: subscription_2_def)
  show ?thesis
    using signature_header [where rt = example_runtime and now = 100 and fin = 101
        and p = "webhook_payload example_runtime event_1"
        and secret = "s_secret_key (subscription_2 True)"
        and et = "e_event_type event_1" and i = "e_id event_1" and eid = 1 and sid = 2
        and s = "delivery_system True" and ev = event_1 and sub = "subscription_2 True"
        and net = sink_500
        and net' = "\<lambda>url body hs. if url = js ''http://sink/ok'' then sink_500 url body hs
                                    else sink_down url body hs",
        OF delivery_lookup(1,2) n] .
qed

end
